theory Spec2Isabelle
  imports Complex_Main "HOL-Library.Sublist" "HOL-Library.Multiset"
begin

section \<open>The deploy orchestrator of \<^verbatim>\<open>src/deploy.ts\<close>\<close>

text \<open>
  The \<^verbatim>\<open>Deployer\<close> class is embedded function by function. Every method is \<^verbatim>\<open>async\<close> and
  talks to the outside (the API client, the file system, the prompts, the clock), so a
  method becomes a function from the history of outside calls made so far (a \<open>trace\<close>) to its
  result and the extended history. A \<^verbatim>\<open>throw\<close> is the result \<open>Inl\<close>, a normal return \<open>Inr\<close>.
  What the outside answers is a parameter: each answer may depend on the whole history.
  The authentication step (\<^verbatim>\<open>setApiClientAndCurrentUser\<close>) is not embedded: a \<open>Deployer\<close>
  holds the API client and the current user that the step leaves behind.
\<close>

subsection \<open>Errors\<close>

text \<open>
  \<^verbatim>\<open>CliError(message, {cause, print, exitCode})\<close> keeps the options as the throw site gives
  them. \<^verbatim>\<open>HttpError\<close> carries the status code. \<^verbatim>\<open>JsError\<close> is a plain \<^verbatim>\<open>new Error(message)\<close>,
  \<^verbatim>\<open>TypeError\<close> the one JavaScript raises on a method call on \<^verbatim>\<open>undefined\<close>.
\<close>

datatype error =
    CliError string "error option" "bool option" "nat option"
  | HttpError nat
  | ApiError "string list"
  | JsError string
  | TypeError
  | Enoent
  | OtherError string

text \<open>
  Modelled from the spec: \<^verbatim>\<open>isHttpError\<close> of \<^verbatim>\<open>error.ts\<close> is not among the sources; the spec
  calls a transport error the error that carries an HTTP status code.
\<close>

fun isHttpError :: "error \<Rightarrow> bool" where
  "isHttpError (HttpError c) = True"
| "isHttpError e = False"

subsection \<open>Data\<close>

text \<open>
  Record fields carry a prefix where the source uses the same name for a field and for a
  variable. A \<^verbatim>\<open>string | null\<close> is a \<open>string option\<close>; \<open>truthy\<close> is the JavaScript test
  \<^verbatim>\<open>if (s)\<close> on it.
\<close>

fun truthy :: "string option \<Rightarrow> bool" where
  "truthy None = False"
| "truthy (Some s) = (s \<noteq> [])"

record Config =
  cfg_root :: string
  cfg_output :: string
  cfg_title :: "string option"

datatype Force = ForceBuild | ForceDeploy

record DeployOptions =
  opt_config :: Config
  opt_deployConfigPath :: "string option"
  opt_message :: "string option"
  opt_deployPollInterval :: "nat option"
  opt_force :: "Force option"
  opt_maxConcurrency :: "nat option"
  opt_deployId :: "string option"

record DeployConfig =
  projectId :: "string option"
  projectSlug :: "string option"
  workspaceLogin :: "string option"
  continuousDeployment :: "bool option"

record Workspace =
  ws_id :: string
  ws_login :: string

record ProjectSource =
  src_provider :: string
  src_provider_id :: string
  src_url :: string
  src_branch :: string

record GetProjectResponse =
  project_id :: string
  project_slug :: string
  project_title :: string
  project_owner :: Workspace
  latestCreatedDeployId :: "string option"
  build_environment_id :: "string option"
  project_source :: "ProjectSource option"

record GetCurrentUserResponse =
  workspaces :: "Workspace list"

record GetDeployResponse =
  deploy_id :: string
  deploy_status :: string
  deploy_url :: string

record GitHubRepository =
  repo_provider :: string
  repo_provider_id :: string
  repo_url :: string

record DeployManifestFile =
  mf_path :: string
  mf_size :: nat
  mf_hash :: string

record FileInstruction =
  fi_path :: string
  fi_status :: string
  fi_detail :: "string option"

record Instructions =
  ins_status :: string
  ins_detail :: "string option"
  ins_files :: "FileInstruction list"

text \<open>The tagged union \<^verbatim>\<open>DeployTargetInfo\<close>: \<^verbatim>\<open>create: true\<close> is \<open>Create\<close>
  (workspace, projectSlug, title, accessLevel), \<^verbatim>\<open>create: false\<close> is \<open>Existing\<close>.\<close>

datatype DeployTargetInfo =
    Create Workspace string string string
  | Existing Workspace GetProjectResponse

text \<open>A JavaScript number that may be infinite (the modification times start from
  \<^verbatim>\<open>Infinity\<close> and \<^verbatim>\<open>-Infinity\<close>); finite numbers are taken as reals.\<close>

datatype jsnum = NegInfinity | Num real | PosInfinity

fun jgt :: "jsnum \<Rightarrow> jsnum \<Rightarrow> bool" where
  "jgt (Num x) (Num y) = (x > y)"
| "jgt (Num x) NegInfinity = True"
| "jgt (Num x) PosInfinity = False"
| "jgt PosInfinity (Num y) = True"
| "jgt PosInfinity NegInfinity = True"
| "jgt PosInfinity PosInfinity = False"
| "jgt NegInfinity b = False"

text \<open>\<^verbatim>\<open>x - b\<close> for a finite \<open>x\<close>.\<close>

fun jsub :: "real \<Rightarrow> jsnum \<Rightarrow> jsnum" where
  "jsub x (Num y) = Num (x - y)"
| "jsub x PosInfinity = NegInfinity"
| "jsub x NegInfinity = PosInfinity"

text \<open>The answer of a prompt: a value, or the cancel symbol.\<close>

datatype 'a answer = Canceled | Answered 'a

record ConfirmOptions =
  cf_message :: string
  cf_initialValue :: "bool option"

datatype RepoKey = ByName string string | ByProviderId string

subsection \<open>The outside\<close>

text \<open>
  One event per call that leaves the program. Spinner, log and telemetry output is left
  out: no control flow depends on it.
\<close>

datatype event =
    DateNow
  | Sleep nat
  | ExistsSync string
  | Exec string
  | GetDeploy string
  | GetProject string string
  | PostProjectBuild string
  | GetGitHubRepository RepoKey
  | PostProjectEnvironment string ProjectSource
  | GetWorkspaceProjects string
  | PostProject string string string string
  | PostDeploy string string
  | PostDeployManifest string "DeployManifestFile list"
  | PostDeployFile string string string
  | PostDeployUploaded string "string option"
  | GetDeployConfig string "string option"
  | SetDeployConfig string "string option" DeployConfig
  | Confirm ConfirmOptions
  | TextPrompt string
  | SelectPrompt string
  | VisitFiles string
  | Stat string
  | FsStat string
  | ReadFile string
  | ReadCacheFile string string
  | Build
  | RateLimiterWait

type_synonym trace = "event list"

text \<open>The methods of \<^verbatim>\<open>ObservableApiClient\<close> that the deployer calls. A rejected promise is \<open>Inl\<close>.\<close>

record ObservableApiClient =
  getDeploy :: "string \<Rightarrow> trace \<Rightarrow> error + GetDeployResponse"
  getProject :: "string \<Rightarrow> string \<Rightarrow> trace \<Rightarrow> error + GetProjectResponse"
  postProjectBuild :: "string \<Rightarrow> trace \<Rightarrow> error + unit"
  getGitHubRepository :: "RepoKey \<Rightarrow> trace \<Rightarrow> error + GitHubRepository option"
  postProjectEnvironment :: "string \<Rightarrow> ProjectSource \<Rightarrow> trace \<Rightarrow> error + bool"
  getWorkspaceProjects :: "string \<Rightarrow> trace \<Rightarrow> error + GetProjectResponse list"
  postProject :: "string \<Rightarrow> string \<Rightarrow> string \<Rightarrow> string \<Rightarrow> trace \<Rightarrow> error + GetProjectResponse"
  postDeploy :: "string \<Rightarrow> string \<Rightarrow> trace \<Rightarrow> error + string"
  postDeployManifest :: "string \<Rightarrow> DeployManifestFile list \<Rightarrow> trace \<Rightarrow> error + Instructions"
  postDeployFile :: "string \<Rightarrow> string \<Rightarrow> string \<Rightarrow> trace \<Rightarrow> error + unit"
  postDeployUploaded :: "string \<Rightarrow> string option \<Rightarrow> trace \<Rightarrow> error + unit"

text \<open>
  \<^verbatim>\<open>DeployEffects\<close>, together with what \<^verbatim>\<open>deploy.ts\<close> imports from Node and from modules
  that are not among the sources: the clock, \<^verbatim>\<open>existsSync\<close>, \<^verbatim>\<open>exec\<close> (its \<^verbatim>\<open>stdout\<close>),
  \<^verbatim>\<open>stat\<close> and \<^verbatim>\<open>readFile\<close> of \<^verbatim>\<open>node:fs\<close>, and the pure helpers \<^verbatim>\<open>new URL(u).pathname\<close>,
  \<^verbatim>\<open>join\<close>, \<^verbatim>\<open>link\<close>, the SHA-512 digest in base64 and the constant
  \<^verbatim>\<open>OBSERVABLE_UI_ORIGIN\<close>. \<open>postProjectEnvironment\<close> above answers whether its response is
  truthy. \<open>visitFiles\<close> gives the paths the generator yields and the error it then throws,
  if any. \<open>readBuildManifest\<close> is \<^verbatim>\<open>readCacheFile\<close> followed by \<^verbatim>\<open>JSON.parse\<close>.
  \<open>launchedAfterFailure\<close> is the scheduling of \<^verbatim>\<open>runAllWithConcurrencyLimit\<close> (see there).
\<close>

record DeployEffects =
  isTty :: bool
  now :: "trace \<Rightarrow> int"
  existsSync :: "string \<Rightarrow> trace \<Rightarrow> bool"
  exec :: "string \<Rightarrow> trace \<Rightarrow> error + string"
  urlPathname :: "string \<Rightarrow> error + string"
  pathJoin :: "string list \<Rightarrow> string"
  link :: "string \<Rightarrow> string"
  uiOrigin :: string
  sha512Base64 :: "string \<Rightarrow> string"
  getDeployConfig :: "string \<Rightarrow> string option \<Rightarrow> trace \<Rightarrow> error + DeployConfig"
  setDeployConfig :: "string \<Rightarrow> string option \<Rightarrow> DeployConfig \<Rightarrow> trace \<Rightarrow> error + unit"
  confirm :: "ConfirmOptions \<Rightarrow> trace \<Rightarrow> bool answer"
  textPrompt :: "string \<Rightarrow> trace \<Rightarrow> string answer"
  selectWorkspace :: "Workspace list \<Rightarrow> trace \<Rightarrow> Workspace answer"
  selectProject :: "GetProjectResponse list \<Rightarrow> trace \<Rightarrow> string option answer"
  selectAccessLevel :: "trace \<Rightarrow> string answer"
  visitFiles :: "string \<Rightarrow> trace \<Rightarrow> string list \<times> error option"
  stat :: "string \<Rightarrow> trace \<Rightarrow> error + real"
  fsStat :: "string \<Rightarrow> trace \<Rightarrow> error + nat"
  readFile :: "string \<Rightarrow> trace \<Rightarrow> error + string"
  build :: "trace \<Rightarrow> error + unit"
  readBuildManifest :: "string \<Rightarrow> string \<Rightarrow> trace \<Rightarrow> error + string"
  launchedAfterFailure :: "nat option \<Rightarrow> trace \<Rightarrow> nat"

record Deployer =
  deployOptions :: DeployOptions
  effects :: DeployEffects
  apiClient :: ObservableApiClient
  currentUser :: GetCurrentUserResponse

text \<open>An outside call: the answer is computed from the history, the call is appended to it.\<close>

definition call :: "(trace \<Rightarrow> 'a) \<Rightarrow> event \<Rightarrow> trace \<Rightarrow> 'a \<times> trace" where
  "call f ev tr = (f tr, tr @ [ev])"

definition DEPLOY_POLL_MAX_MS :: int where
  "DEPLOY_POLL_MAX_MS = 1000 * 60 * 5"

definition DEPLOY_POLL_INTERVAL_MS :: nat where
  "DEPLOY_POLL_INTERVAL_MS = 1000 * 5"

definition BUILD_AGE_WARNING_MS :: real where
  "BUILD_AGE_WARNING_MS = 1000 * 60 * 5"

definition userCanceled :: "string \<Rightarrow> error" where
  "userCanceled msg = CliError msg None (Some False) (Some 0)"

definition plainCliError :: "string \<Rightarrow> error" where
  "plainCliError msg = CliError msg None None None"

subsection \<open>\<^verbatim>\<open>checkDeployCreated\<close>\<close>

text \<open>
  The \<^verbatim>\<open>try\<close> block is \<open>checkDeployCreated_try\<close>; the \<^verbatim>\<open>catch\<close> clause sees every error of
  the block, the one the block throws itself included.
\<close>

definition checkDeployCreated_try ::
  "Deployer \<Rightarrow> string \<Rightarrow> trace \<Rightarrow> (error + GetDeployResponse) \<times> trace" where
  "checkDeployCreated_try this deployId tr =
     (case call (getDeploy (apiClient this) deployId) (GetDeploy deployId) tr of
        (Inl e, tr1) \<Rightarrow> (Inl e, tr1)
      | (Inr deployInfo, tr1) \<Rightarrow>
          if deploy_status deployInfo \<noteq> ''created''
          then (Inl (CliError (''Deploy '' @ deployId @ '' has an unexpected status: ''
                                 @ deploy_status deployInfo) None None None), tr1)
          else (Inr deployInfo, tr1))"

definition checkDeployCreated ::
  "Deployer \<Rightarrow> string \<Rightarrow> trace \<Rightarrow> (error + GetDeployResponse) \<times> trace" where
  "checkDeployCreated this deployId tr =
     (case checkDeployCreated_try this deployId tr of
        (Inl e, tr1) \<Rightarrow>
          if isHttpError e
          then (Inl (CliError (''Deploy '' @ deployId @ '' not found.'') (Some e) None None), tr1)
          else (Inl e, tr1)
      | (Inr deployInfo, tr1) \<Rightarrow> (Inr deployInfo, tr1))"

subsection \<open>\<^verbatim>\<open>settingsUrl\<close>\<close>

definition settingsUrl :: "DeployEffects \<Rightarrow> DeployTargetInfo \<Rightarrow> error + string" where
  "settingsUrl eff deployTarget =
     (case deployTarget of
        Create workspace slug title accessLevel \<Rightarrow> Inl (JsError ''Incorrect deploy target state'')
      | Existing workspace project \<Rightarrow>
          Inr (uiOrigin eff @ ''projects/@'' @ ws_login workspace @ ''/'' @ project_slug project))"

subsection \<open>\<^verbatim>\<open>getGitHubRemote\<close>\<close>

text \<open>\<^verbatim>\<open>s.split(sep)\<close> for a separator that is one character (or a class of characters):
  the pieces between the separators, empty pieces included.\<close>

fun split_on :: "(char \<Rightarrow> bool) \<Rightarrow> string \<Rightarrow> string list" where
  "split_on p [] = [[]]"
| "split_on p (c # cs) =
     (if p c then [] # split_on p cs
      else (case split_on p cs of [] \<Rightarrow> [[c]] | w # ws \<Rightarrow> (c # w) # ws))"

text \<open>The class \<^verbatim>\<open>\s\<close> on characters below 256: tab, line feed, vertical tab, form feed,
  carriage return, space and the no-break space.\<close>

definition isSpace :: "char \<Rightarrow> bool" where
  "isSpace c = (c \<in> set [CHR 0x09, CHR 0x0A, CHR 0x0B, CHR 0x0C, CHR 0x0D, CHR 0x20, CHR 0xA0])"

text \<open>\<^verbatim>\<open>s.replace(/\.git$/, "")\<close>.\<close>

definition stripDotGit :: "string \<Rightarrow> string" where
  "stripDotGit s = (if suffix ''.git'' s then take (length s - 4) s else s)"

text \<open>\<^verbatim>\<open>const [ownerName, repoName] = parts\<close>: a missing element is \<^verbatim>\<open>undefined\<close>.\<close>

fun ownerRepo :: "string list \<Rightarrow> string option \<times> string option" where
  "ownerRepo [] = (None, None)"
| "ownerRepo [a] = (Some a, None)"
| "ownerRepo (a # b # rest) = (Some a, Some b)"

text \<open>The callback of \<^verbatim>\<open>map\<close>: \<open>Inr None\<close> is a line that is neither form (the callback
  returns \<^verbatim>\<open>undefined\<close>); a line without a second field raises on \<^verbatim>\<open>url.startsWith\<close>.\<close>

definition parseRemoteLine ::
  "DeployEffects \<Rightarrow> string \<Rightarrow> error + (string option \<times> string option) option" where
  "parseRemoteLine eff d =
     (case split_on isSpace d of
        first # url # rest \<Rightarrow>
          if prefix ''https://github.com/'' url
          then (case urlPathname eff url of
                  Inl e \<Rightarrow> Inl e
                | Inr pathname \<Rightarrow>
                    Inr (Some (ownerRepo (split_on (\<lambda>c. c = CHR ''/'') (stripDotGit (drop 1 pathname))))))
          else if prefix ''git@github.com:'' url
          then Inr (Some (ownerRepo (split_on (\<lambda>c. c = CHR ''/'') (stripDotGit (drop 15 url)))))
          else Inr None
      | other \<Rightarrow> Inl TypeError)"

fun parseRemotes ::
  "DeployEffects \<Rightarrow> string list \<Rightarrow> error + (string option \<times> string option) option list" where
  "parseRemotes eff [] = Inr []"
| "parseRemotes eff (d # ds) =
     (case parseRemoteLine eff d of
        Inl e \<Rightarrow> Inl e
      | Inr r \<Rightarrow> (case parseRemotes eff ds of Inl e \<Rightarrow> Inl e | Inr rs \<Rightarrow> Inr (r # rs)))"

fun isRemote :: "(string option \<times> string option) option \<Rightarrow> bool" where
  "isRemote None = False"
| "isRemote (Some (ownerName, repoName)) = (truthy ownerName \<and> truthy repoName)"

definition getGitHubRemote :: "DeployEffects \<Rightarrow> trace \<Rightarrow> (error + string \<times> string) \<times> trace" where
  "getGitHubRemote eff tr =
     (case call (exec eff ''git remote -v'') (Exec ''git remote -v'') tr of
        (Inl e, tr1) \<Rightarrow> (Inl e, tr1)
      | (Inr stdout, tr1) \<Rightarrow>
          (case parseRemotes eff (filter (\<lambda>d. d \<noteq> []) (split_on (\<lambda>c. c = CHR 0x0A) stdout)) of
             Inl e \<Rightarrow> (Inl e, tr1)
           | Inr remotes \<Rightarrow>
               (case find isRemote remotes of
                  Some (Some (Some ownerName, Some repoName)) \<Rightarrow> (Inr (ownerName, repoName), tr1)
                | other \<Rightarrow> (Inl (plainCliError ''No GitHub remote found.''), tr1))))"

subsection \<open>\<^verbatim>\<open>cloudBuild\<close>\<close>

text \<open>The \<^verbatim>\<open>while (true)\<close> loop. It need not end: no answer is \<open>None\<close>.\<close>

partial_function (option) cloudBuild_loop ::
  "Deployer \<Rightarrow> Workspace \<Rightarrow> GetProjectResponse \<Rightarrow> nat \<Rightarrow> int \<Rightarrow> trace
     \<Rightarrow> ((error + string option) \<times> trace) option" where
  "cloudBuild_loop this workspace project pollInterval pollExpiration tr =
     (case call (now (effects this)) DateNow tr of (t, tr1) \<Rightarrow>
        if t > pollExpiration
        then Some (Inl (plainCliError ''Requesting deploy failed''), tr1)
        else (case call (getProject (apiClient this) (ws_login workspace) (project_slug project))
                     (GetProject (ws_login workspace) (project_slug project)) tr1 of
                (Inl e, tr2) \<Rightarrow> Some (Inl e, tr2)
              | (Inr p, tr2) \<Rightarrow>
                  if latestCreatedDeployId p \<noteq> latestCreatedDeployId project
                  then Some (Inr (latestCreatedDeployId p), tr2)
                  else cloudBuild_loop this workspace project pollInterval pollExpiration
                         (tr2 @ [Sleep pollInterval])))"

declare cloudBuild_loop.simps [code]

definition pollIntervalOf :: "Deployer \<Rightarrow> nat" where
  "pollIntervalOf this =
     (case opt_deployPollInterval (deployOptions this) of
        None \<Rightarrow> DEPLOY_POLL_INTERVAL_MS
      | Some i \<Rightarrow> i)"

definition cloudBuild ::
  "Deployer \<Rightarrow> DeployTargetInfo \<Rightarrow> trace \<Rightarrow> ((error + string option) \<times> trace) option" where
  "cloudBuild this deployTarget tr =
     (case deployTarget of
        Create workspace slug title accessLevel \<Rightarrow>
          Some (Inl (JsError ''Incorrect deploy target state''), tr)
      | Existing workspace project \<Rightarrow>
          (case call (postProjectBuild (apiClient this) (project_id project))
                  (PostProjectBuild (project_id project)) tr of
             (Inl e, tr1) \<Rightarrow> Some (Inl e, tr1)
           | (Inr u, tr1) \<Rightarrow>
               (case call (now (effects this)) DateNow tr1 of (t0, tr2) \<Rightarrow>
                  cloudBuild_loop this workspace project (pollIntervalOf this)
                    (t0 + DEPLOY_POLL_MAX_MS) tr2)))"

subsection \<open>\<^verbatim>\<open>pollForProcessingCompletion\<close>\<close>

text \<open>\<open>statusText\<close> is \<^verbatim>\<open>${deployInfo?.status}\<close>.\<close>

definition statusText :: "GetDeployResponse option \<Rightarrow> string" where
  "statusText deployInfo =
     (case deployInfo of None \<Rightarrow> ''undefined'' | Some d \<Rightarrow> deploy_status d)"

partial_function (option) pollLoop ::
  "Deployer \<Rightarrow> string \<Rightarrow> nat \<Rightarrow> int \<Rightarrow> GetDeployResponse option \<Rightarrow> trace
     \<Rightarrow> ((error + GetDeployResponse) \<times> trace) option" where
  "pollLoop this deployId pollInterval pollExpiration deployInfo tr =
     (case call (now (effects this)) DateNow tr of (t, tr1) \<Rightarrow>
        if t > pollExpiration
        then Some (Inl (plainCliError (''Deploy failed to process on server: status = ''
                                         @ statusText deployInfo)), tr1)
        else (case call (getDeploy (apiClient this) deployId) (GetDeploy deployId) tr1 of
                (Inl e, tr2) \<Rightarrow> Some (Inl e, tr2)
              | (Inr d, tr2) \<Rightarrow>
                  if deploy_status d = ''created'' \<or> deploy_status d = ''pending''
                  then pollLoop this deployId pollInterval pollExpiration (Some d)
                         (tr2 @ [Sleep pollInterval])
                  else if deploy_status d = ''uploaded'' then Some (Inr d, tr2)
                  else if deploy_status d = ''failed''
                  then Some (Inl (plainCliError ''Deploy failed to process on server''), tr2)
                  else if deploy_status d = ''canceled''
                  then Some (Inl (plainCliError ''Deploy canceled''), tr2)
                  else Some (Inl (plainCliError (''Unknown deploy status: '' @ deploy_status d)),
                             tr2)))"

declare pollLoop.simps [code]

definition pollForProcessingCompletion ::
  "Deployer \<Rightarrow> string \<Rightarrow> trace \<Rightarrow> ((error + GetDeployResponse) \<times> trace) option" where
  "pollForProcessingCompletion this deployId tr =
     (case call (now (effects this)) DateNow tr of (t0, tr1) \<Rightarrow>
        pollLoop this deployId (pollIntervalOf this) (t0 + DEPLOY_POLL_MAX_MS) None tr1)"

subsection \<open>\<^verbatim>\<open>validateGitHubLink\<close>\<close>

text \<open>The errors that point to the settings page:
  \<^verbatim>\<open>new CliError(`${msg}${link(`${settingsUrl(deployTarget)}/settings`)}`)\<close>.\<close>

definition settingsError :: "DeployEffects \<Rightarrow> DeployTargetInfo \<Rightarrow> string \<Rightarrow> error" where
  "settingsError eff deployTarget msg =
     (case settingsUrl eff deployTarget of
        Inl e \<Rightarrow> e
      | Inr u \<Rightarrow> plainCliError (msg @ link eff (u @ ''/settings'')))"

text \<open>The link that these errors carry for an existing target.\<close>

definition settingsPage :: "DeployEffects \<Rightarrow> Workspace \<Rightarrow> GetProjectResponse \<Rightarrow> string" where
  "settingsPage eff workspace project =
     link eff (uiOrigin eff @ ''projects/@'' @ ws_login workspace @ ''/'' @ project_slug project
               @ ''/settings'')"

text \<open>The branch \<^verbatim>\<open>if (deployTarget.project.source)\<close>. \<open>branch\<close> is the \<^verbatim>\<open>stdout\<close> of
  \<^verbatim>\<open>git rev-parse --abbrev-ref HEAD\<close> as it is.\<close>

definition validateGitHubLink_configured ::
  "Deployer \<Rightarrow> DeployTargetInfo \<Rightarrow> ProjectSource \<Rightarrow> string \<Rightarrow> GitHubRepository option \<Rightarrow> trace
     \<Rightarrow> (error + unit) \<times> trace" where
  "validateGitHubLink_configured this deployTarget source branch localRepo tr =
     (if (case localRepo of None \<Rightarrow> False
          | Some r \<Rightarrow> src_provider_id source \<noteq> repo_provider_id r)
      then (Inl (settingsError (effects this) deployTarget
                   ''Configured repository does not match local repository; check build settings on ''),
            tr)
      else if localRepo \<noteq> None \<and> src_branch source \<noteq> branch
      then (Inl (settingsError (effects this) deployTarget
                   ''Configured branch does not match local branch; check build settings on ''),
            tr)
      else (case call (getGitHubRepository (apiClient this) (ByProviderId (src_provider_id source)))
                   (GetGitHubRepository (ByProviderId (src_provider_id source))) tr of
              (Inl e, tr1) \<Rightarrow> (Inl e, tr1)
            | (Inr None, tr1) \<Rightarrow>
                (Inl (settingsError (effects this) deployTarget
                        ''Cannot access configured repository; check build settings on ''),
                 tr1)
            | (Inr (Some remoteAuthedRepo), tr1) \<Rightarrow> (Inr (), tr1)))"

text \<open>The loop \<^verbatim>\<open>while (!localRepo)\<close> that waits for the authorization.\<close>

partial_function (option) waitForAuthorization ::
  "Deployer \<Rightarrow> string \<Rightarrow> string \<Rightarrow> int \<Rightarrow> trace
     \<Rightarrow> ((error + GitHubRepository) \<times> trace) option" where
  "waitForAuthorization this ownerName repoName pollExpiration tr =
     (case call (now (effects this)) DateNow (tr @ [Sleep 2000]) of (t, tr1) \<Rightarrow>
        if t > pollExpiration
        then Some (Inl (plainCliError ''Repository authorization failed''), tr1)
        else (case call (getGitHubRepository (apiClient this) (ByName ownerName repoName))
                     (GetGitHubRepository (ByName ownerName repoName)) tr1 of
                (Inl e, tr2) \<Rightarrow> Some (Inl e, tr2)
              | (Inr None, tr2) \<Rightarrow> waitForAuthorization this ownerName repoName pollExpiration tr2
              | (Inr (Some r), tr2) \<Rightarrow> Some (Inr r, tr2)))"

declare waitForAuthorization.simps [code]

definition postSource ::
  "Deployer \<Rightarrow> GetProjectResponse \<Rightarrow> string \<Rightarrow> GitHubRepository \<Rightarrow> trace
     \<Rightarrow> (error + unit) \<times> trace" where
  "postSource this project branch localRepo tr =
     (let source = \<lparr>src_provider = repo_provider localRepo,
                     src_provider_id = repo_provider_id localRepo,
                     src_url = repo_url localRepo,
                     src_branch = branch\<rparr>
      in case call (postProjectEnvironment (apiClient this) (project_id project) source)
                (PostProjectEnvironment (project_id project) source) tr of
           (Inl e, tr1) \<Rightarrow> (Inl e, tr1)
         | (Inr response, tr1) \<Rightarrow>
             if \<not> response
             then (Inl (plainCliError ''Setting source repository for continuous deployment failed''),
                   tr1)
             else (Inr (), tr1))"

text \<open>The rest of the method, when no source is configured.\<close>

definition validateGitHubLink_link ::
  "Deployer \<Rightarrow> GetProjectResponse \<Rightarrow> string \<Rightarrow> string \<Rightarrow> string \<Rightarrow> GitHubRepository option
     \<Rightarrow> trace \<Rightarrow> ((error + unit) \<times> trace) option" where
  "validateGitHubLink_link this project ownerName repoName branch localRepo tr =
     (case localRepo of
        Some r \<Rightarrow> Some (postSource this project branch r tr)
      | None \<Rightarrow>
          if \<not> isTty (effects this)
          then Some (Inl (plainCliError
                 ''Cannot access repository for continuous deployment and cannot request access in non-interactive mode''),
                 tr)
          else (case call (now (effects this)) DateNow tr of (t0, tr1) \<Rightarrow>
                  (case waitForAuthorization this ownerName repoName (t0 + DEPLOY_POLL_MAX_MS) tr1 of
                     None \<Rightarrow> None
                   | Some (Inl e, tr2) \<Rightarrow> Some (Inl e, tr2)
                   | Some (Inr r, tr2) \<Rightarrow> Some (postSource this project branch r tr2))))"

text \<open>What the method learns about the local repository before it looks at the project's
  source: \<^verbatim>\<open>ownerName\<close>, \<^verbatim>\<open>repoName\<close>, \<^verbatim>\<open>branch\<close> and \<^verbatim>\<open>localRepo\<close>.\<close>

definition localRepository ::
  "Deployer \<Rightarrow> trace
     \<Rightarrow> (error + string \<times> string \<times> string \<times> GitHubRepository option) \<times> trace" where
  "localRepository this tr =
     (case call (existsSync (effects this) ''.git'') (ExistsSync ''.git'') tr of
        (isGit, tr1) \<Rightarrow>
          if \<not> isGit
          then (Inl (plainCliError ''Not at root of a git repository.''), tr1)
          else (case getGitHubRemote (effects this) tr1 of
            (Inl e, tr2) \<Rightarrow> (Inl e, tr2)
          | (Inr (ownerName, repoName), tr2) \<Rightarrow>
              (case call (exec (effects this) ''git rev-parse --abbrev-ref HEAD'')
                      (Exec ''git rev-parse --abbrev-ref HEAD'') tr2 of
                 (Inl e, tr3) \<Rightarrow> (Inl e, tr3)
               | (Inr branch, tr3) \<Rightarrow>
                   (case call (getGitHubRepository (apiClient this) (ByName ownerName repoName))
                           (GetGitHubRepository (ByName ownerName repoName)) tr3 of
                      (Inl e, tr4) \<Rightarrow> (Inl e, tr4)
                    | (Inr localRepo, tr4) \<Rightarrow>
                        (Inr (ownerName, repoName, branch, localRepo), tr4)))))"

definition validateGitHubLink ::
  "Deployer \<Rightarrow> DeployTargetInfo \<Rightarrow> trace \<Rightarrow> ((error + unit) \<times> trace) option" where
  "validateGitHubLink this deployTarget tr =
     (case deployTarget of
        Create workspace slug title accessLevel \<Rightarrow>
          Some (Inl (JsError ''Incorrect deploy target state''), tr)
      | Existing workspace project \<Rightarrow>
          if \<not> truthy (build_environment_id project)
          then Some (Inl (plainCliError ''No build environment configured.''), tr)
          else (case localRepository this tr of
                  (Inl e, tr1) \<Rightarrow> Some (Inl e, tr1)
                | (Inr (ownerName, repoName, branch, localRepo), tr1) \<Rightarrow>
                    (case project_source project of
                       Some source \<Rightarrow>
                         Some (validateGitHubLink_configured this deployTarget source branch
                                 localRepo tr1)
                     | None \<Rightarrow>
                         validateGitHubLink_link this project ownerName repoName branch
                           localRepo tr1)))"

subsection \<open>\<^verbatim>\<open>getUpdatedDeployConfig\<close>\<close>

text \<open>\<^verbatim>\<open>/^[a-z0-9-]+$/\<close> and \<^verbatim>\<open>/^@?[a-z0-9-]+$/\<close>. Without the \<^verbatim>\<open>m\<close> flag, \<^verbatim>\<open>$\<close> is the end of
  the string.\<close>

definition isSlugChar :: "char \<Rightarrow> bool" where
  "isSlugChar c = (c \<in> set ''abcdefghijklmnopqrstuvwxyz0123456789-'')"

definition matchSlug :: "string \<Rightarrow> bool" where
  "matchSlug s = (s \<noteq> [] \<and> list_all isSlugChar s)"

definition matchLogin :: "string \<Rightarrow> bool" where
  "matchLogin s = (case s of c # r \<Rightarrow> if c = CHR ''@'' then matchSlug r else matchSlug s
                   | [] \<Rightarrow> False)"

definition deployJsonPath :: "Deployer \<Rightarrow> string" where
  "deployJsonPath this =
     pathJoin (effects this)
       [cfg_root (opt_config (deployOptions this)), ''.observablehq'', ''deploy.json'']"

definition writeDeployConfig :: "Deployer \<Rightarrow> DeployConfig \<Rightarrow> trace \<Rightarrow> (error + unit) \<times> trace" where
  "writeDeployConfig this deployConfig tr =
     call (setDeployConfig (effects this) (cfg_root (opt_config (deployOptions this)))
             (opt_deployConfigPath (deployOptions this)) deployConfig)
       (SetDeployConfig (cfg_root (opt_config (deployOptions this)))
          (opt_deployConfigPath (deployOptions this)) deployConfig) tr"

text \<open>The loop over \<^verbatim>\<open>this.currentUser.workspaces\<close>; it returns the config, updated and
  written when the project is found.\<close>

fun searchWorkspaces ::
  "Deployer \<Rightarrow> DeployConfig \<Rightarrow> Workspace list \<Rightarrow> trace \<Rightarrow> (error + DeployConfig) \<times> trace" where
  "searchWorkspaces this deployConfig [] tr = (Inr deployConfig, tr)"
| "searchWorkspaces this deployConfig (workspace # rest) tr =
     (case call (getWorkspaceProjects (apiClient this) (ws_login workspace))
             (GetWorkspaceProjects (ws_login workspace)) tr of
        (Inl e, tr1) \<Rightarrow> (Inl e, tr1)
      | (Inr projects, tr1) \<Rightarrow>
          (case find (\<lambda>p. Some (project_id p) = projectId deployConfig) projects of
             None \<Rightarrow> searchWorkspaces this deployConfig rest tr1
           | Some project \<Rightarrow>
               (let found = deployConfig\<lparr>projectSlug := Some (project_slug project),
                                         workspaceLogin := Some (ws_login workspace)\<rparr>
                in case writeDeployConfig this found tr1 of
                     (Inl e, tr2) \<Rightarrow> (Inl e, tr2)
                   | (Inr u, tr2) \<Rightarrow> (Inr found, tr2))))"

definition getUpdatedDeployConfig :: "Deployer \<Rightarrow> trace \<Rightarrow> (error + DeployConfig) \<times> trace" where
  "getUpdatedDeployConfig this tr =
     (case call (getDeployConfig (effects this) (cfg_root (opt_config (deployOptions this)))
                   (opt_deployConfigPath (deployOptions this)))
             (GetDeployConfig (cfg_root (opt_config (deployOptions this)))
                (opt_deployConfigPath (deployOptions this))) tr of
        (Inl e, tr1) \<Rightarrow> (Inl e, tr1)
      | (Inr deployConfig, tr1) \<Rightarrow>
          if (case workspaceLogin deployConfig of None \<Rightarrow> False
              | Some login \<Rightarrow> login \<noteq> [] \<and> \<not> matchLogin login)
          then (Inl (plainCliError (''Found invalid workspace login in '' @ deployJsonPath this
                       @ '': '' @ (case workspaceLogin deployConfig of None \<Rightarrow> [] | Some l \<Rightarrow> l)
                       @ ''.'')), tr1)
          else if (case projectSlug deployConfig of None \<Rightarrow> False
                   | Some slug \<Rightarrow> slug \<noteq> [] \<and> \<not> matchSlug slug)
          then (Inl (plainCliError (''Found invalid `projectSlug` in '' @ deployJsonPath this
                       @ '': '' @ (case projectSlug deployConfig of None \<Rightarrow> [] | Some l \<Rightarrow> l)
                       @ ''.'')), tr1)
          else if truthy (projectId deployConfig)
                  \<and> (\<not> truthy (projectSlug deployConfig) \<or> \<not> truthy (workspaceLogin deployConfig))
          then searchWorkspaces this deployConfig (workspaces (currentUser this)) tr1
          else (Inr deployConfig, tr1))"

subsection \<open>\<^verbatim>\<open>promptDeployTarget\<close>\<close>

text \<open>
  A prompt is named by its message; the labels, hints and the order of the options it
  shows are left out. \<open>selectProject\<close> answers \<open>None\<close> for "Create a new app" and the slug
  of a listed project otherwise; for a slug that is not listed (which the prompt cannot
  answer) the source returns a target whose \<^verbatim>\<open>project\<close> is \<^verbatim>\<open>undefined\<close> and the caller
  raises on the first field it reads, which is \<open>Inl TypeError\<close> here.
\<close>

definition promptDeployTarget_create ::
  "DeployEffects \<Rightarrow> Config \<Rightarrow> Workspace \<Rightarrow> trace \<Rightarrow> (error + DeployTargetInfo) \<times> trace" where
  "promptDeployTarget_create eff config workspace tr =
     (case (case cfg_title config of
              Some title \<Rightarrow> (Inr title, tr)
            | None \<Rightarrow>
                (case call (textPrompt eff ''What title do you want to use?'')
                        (TextPrompt ''What title do you want to use?'') tr of
                   (Canceled, tr1) \<Rightarrow> (Inl (userCanceled ''User canceled deploy.''), tr1)
                 | (Answered titleChoice, tr1) \<Rightarrow> (Inr titleChoice, tr1))) of
        (Inl e, tr1) \<Rightarrow> (Inl e, tr1)
      | (Inr title, tr1) \<Rightarrow>
          (case call (textPrompt eff ''What slug do you want to use?'')
                  (TextPrompt ''What slug do you want to use?'') tr1 of
             (Canceled, tr2) \<Rightarrow> (Inl (userCanceled ''User canceled deploy.''), tr2)
           | (Answered projectSlugChoice, tr2) \<Rightarrow>
               (case call (selectAccessLevel eff) (SelectPrompt ''Who is allowed to access your app?'')
                       tr2 of
                  (Canceled, tr3) \<Rightarrow> (Inl (userCanceled ''User canceled deploy.''), tr3)
                | (Answered accessLevel, tr3) \<Rightarrow>
                    (Inr (Create workspace projectSlugChoice title accessLevel), tr3))))"

definition promptDeployTarget_project ::
  "DeployEffects \<Rightarrow> Config \<Rightarrow> ObservableApiClient \<Rightarrow> Workspace \<Rightarrow> trace
     \<Rightarrow> (error + DeployTargetInfo) \<times> trace" where
  "promptDeployTarget_project eff config api workspace tr =
     (case call (getWorkspaceProjects api (ws_login workspace))
             (GetWorkspaceProjects (ws_login workspace)) tr of
        (Inl e, tr1) \<Rightarrow>
          (case e of
             HttpError c \<Rightarrow>
               if c = 404
               then (Inl (CliError (''Workspace '' @ ws_login workspace @ '' not found.'')
                            (Some e) None None), tr1)
               else (Inl e, tr1)
           | other \<Rightarrow> (Inl e, tr1))
      | (Inr existingProjects, tr1) \<Rightarrow>
          if length existingProjects > 0
          then (case call (selectProject eff existingProjects)
                       (SelectPrompt ''Which app do you want to use?'') tr1 of
                  (Canceled, tr2) \<Rightarrow> (Inl (userCanceled ''User canceled deploy.''), tr2)
                | (Answered (Some chosenProject), tr2) \<Rightarrow>
                    (case find (\<lambda>p. project_slug p = chosenProject) existingProjects of
                       Some project \<Rightarrow> (Inr (Existing workspace project), tr2)
                     | None \<Rightarrow> (Inl TypeError, tr2))
                | (Answered None, tr2) \<Rightarrow> promptDeployTarget_create eff config workspace tr2)
          else (case call (confirm eff \<lparr>cf_message = ''No apps found. Do you want to create a new app?'',
                                        cf_initialValue = None\<rparr>)
                       (Confirm \<lparr>cf_message = ''No apps found. Do you want to create a new app?'',
                                 cf_initialValue = None\<rparr>) tr1 of
                  (Answered True, tr2) \<Rightarrow> promptDeployTarget_create eff config workspace tr2
                | (other, tr2) \<Rightarrow> (Inl (userCanceled ''User canceled deploy.''), tr2)))"

definition promptDeployTarget ::
  "DeployEffects \<Rightarrow> Config \<Rightarrow> ObservableApiClient \<Rightarrow> GetCurrentUserResponse \<Rightarrow> trace
     \<Rightarrow> (error + DeployTargetInfo) \<times> trace" where
  "promptDeployTarget eff config api user tr =
     (if \<not> isTty eff then (Inl (plainCliError ''Deploy not configured.''), tr)
      else (case workspaces user of
              [] \<Rightarrow> (Inl (CliError ''No Observable workspace found.'' None (Some False) (Some 1)), tr)
            | [workspace] \<Rightarrow> promptDeployTarget_project eff config api workspace tr
            | several \<Rightarrow>
                (case call (selectWorkspace eff (workspaces user))
                        (SelectPrompt ''Which Observable workspace do you want to use?'') tr of
                   (Canceled, tr1) \<Rightarrow> (Inl (userCanceled ''User canceled deploy.''), tr1)
                 | (Answered chosenWorkspace, tr1) \<Rightarrow>
                     promptDeployTarget_project eff config api chosenWorkspace tr1)))"

subsection \<open>\<^verbatim>\<open>getDeployTarget\<close>\<close>

text \<open>The first \<^verbatim>\<open>try\<close>: the project named by the config; a 404 leaves the target undefined.\<close>

definition getDeployTarget_fetch ::
  "Deployer \<Rightarrow> DeployConfig \<Rightarrow> trace \<Rightarrow> (error + DeployTargetInfo option) \<times> trace" where
  "getDeployTarget_fetch this deployConfig tr =
     (case (workspaceLogin deployConfig, projectSlug deployConfig) of
        (Some login, Some slug) \<Rightarrow>
          if login \<noteq> [] \<and> slug \<noteq> []
          then (case call (getProject (apiClient this) login slug) (GetProject login slug) tr of
                  (Inr project, tr1) \<Rightarrow> (Inr (Some (Existing (project_owner project) project)), tr1)
                | (Inl e, tr1) \<Rightarrow>
                    if \<not> isHttpError e \<or> e \<noteq> HttpError 404 then (Inl e, tr1)
                    else (Inr None, tr1))
          else (Inr None, tr)
      | other \<Rightarrow> (Inr None, tr))"

text \<open>The prompt "Do you want to continue deploying?" of both drift branches.\<close>

definition confirmContinue :: "DeployEffects \<Rightarrow> trace \<Rightarrow> (error + unit) \<times> trace" where
  "confirmContinue eff tr =
     (case call (confirm eff \<lparr>cf_message = ''Do you want to continue deploying?'',
                              cf_initialValue = None\<rparr>)
             (Confirm \<lparr>cf_message = ''Do you want to continue deploying?'',
                       cf_initialValue = None\<rparr>) tr of
        (Answered True, tr1) \<Rightarrow> (Inr (), tr1)
      | (other, tr1) \<Rightarrow> (Inl (userCanceled ''User canceled deploy''), tr1))"

text \<open>The block \<^verbatim>\<open>if (!deployTarget.create)\<close>: the check of the last deployed state.\<close>

definition getDeployTarget_drift ::
  "Deployer \<Rightarrow> DeployConfig \<Rightarrow> DeployTargetInfo \<Rightarrow> trace \<Rightarrow> (error + unit) \<times> trace" where
  "getDeployTarget_drift this deployConfig deployTarget tr =
     (case deployTarget of
        Create workspace slug title accessLevel \<Rightarrow> (Inr (), tr)
      | Existing workspace project \<Rightarrow>
          if truthy (projectId deployConfig) \<and> projectId deployConfig \<noteq> Some (project_id project)
          then (if isTty (effects this) then confirmContinue (effects this) tr
                else (Inl (plainCliError ''Cancelling deploy due to misconfiguration.''), tr))
          else if truthy (projectId deployConfig) then (Inr (), tr)
          else (if isTty (effects this) then confirmContinue (effects this) tr
                else (Inl (plainCliError ''Running non-interactively, cancelling due to conflict.''),
                      tr)))"

text \<open>The block \<^verbatim>\<open>if (deployTarget.create)\<close>: the project is created and the target becomes
  \<open>Existing\<close>; any error of the creation is wrapped.\<close>

definition getDeployTarget_create ::
  "Deployer \<Rightarrow> DeployTargetInfo \<Rightarrow> trace \<Rightarrow> (error + DeployTargetInfo) \<times> trace" where
  "getDeployTarget_create this deployTarget tr =
     (case deployTarget of
        Existing workspace project \<Rightarrow> (Inr deployTarget, tr)
      | Create workspace slug title accessLevel \<Rightarrow>
          (case call (postProject (apiClient this) slug title (ws_id workspace) accessLevel)
                  (PostProject slug title (ws_id workspace) accessLevel) tr of
             (Inr project, tr1) \<Rightarrow> (Inr (Existing workspace project), tr1)
           | (Inl e, tr1) \<Rightarrow> (Inl (CliError ''Error during deploy'' (Some e) (Some False) None), tr1)))"

definition getDeployTarget_continuous ::
  "Deployer \<Rightarrow> DeployConfig \<Rightarrow> trace \<Rightarrow> (error + bool) \<times> trace" where
  "getDeployTarget_continuous this deployConfig tr =
     (case continuousDeployment deployConfig of
        Some b \<Rightarrow> (Inr b, tr)
      | None \<Rightarrow>
          (case call (confirm (effects this)
                        \<lparr>cf_message = ''Do you want to enable continuous deployment?'',
                         cf_initialValue = None\<rparr>)
                  (Confirm \<lparr>cf_message = ''Do you want to enable continuous deployment?'',
                            cf_initialValue = None\<rparr>) tr of
             (Canceled, tr1) \<Rightarrow> (Inl (userCanceled ''User canceled deploy''), tr1)
           | (Answered enable, tr1) \<Rightarrow> (Inr enable, tr1)))"

text \<open>The end of the method reads \<^verbatim>\<open>deployTarget.project.id\<close>, which raises on a value
  without \<^verbatim>\<open>project\<close>.\<close>

definition getDeployTarget_save ::
  "Deployer \<Rightarrow> DeployTargetInfo \<Rightarrow> bool \<Rightarrow> trace
     \<Rightarrow> (error + DeployConfig \<times> DeployTargetInfo) \<times> trace" where
  "getDeployTarget_save this deployTarget enable tr =
     (case deployTarget of
        Create workspace slug title accessLevel \<Rightarrow> (Inl TypeError, tr)
      | Existing workspace project \<Rightarrow>
          (let newDeployConfig = \<lparr>projectId = Some (project_id project),
                                   projectSlug = Some (project_slug project),
                                   workspaceLogin = Some (ws_login workspace),
                                   continuousDeployment = Some enable\<rparr>
           in case writeDeployConfig this newDeployConfig tr of
                (Inl e, tr1) \<Rightarrow> (Inl e, tr1)
              | (Inr u, tr1) \<Rightarrow> (Inr (newDeployConfig, deployTarget), tr1)))"

definition getDeployTarget ::
  "Deployer \<Rightarrow> DeployConfig \<Rightarrow> trace \<Rightarrow> (error + DeployConfig \<times> DeployTargetInfo) \<times> trace" where
  "getDeployTarget this deployConfig tr =
     (case getDeployTarget_fetch this deployConfig tr of
        (Inl e, tr1) \<Rightarrow> (Inl e, tr1)
      | (Inr fetched, tr1) \<Rightarrow>
          (case (case fetched of
                   Some t \<Rightarrow> (Inr t, tr1)
                 | None \<Rightarrow> promptDeployTarget (effects this) (opt_config (deployOptions this))
                             (apiClient this) (currentUser this) tr1) of
             (Inl e, tr2) \<Rightarrow> (Inl e, tr2)
           | (Inr deployTarget, tr2) \<Rightarrow>
               (case getDeployTarget_drift this deployConfig deployTarget tr2 of
                  (Inl e, tr3) \<Rightarrow> (Inl e, tr3)
                | (Inr u, tr3) \<Rightarrow>
                    (case getDeployTarget_create this deployTarget tr3 of
                       (Inl e, tr4) \<Rightarrow> (Inl e, tr4)
                     | (Inr created, tr4) \<Rightarrow>
                         (case getDeployTarget_continuous this deployConfig tr4 of
                            (Inl e, tr5) \<Rightarrow> (Inl e, tr5)
                          | (Inr enable, tr5) \<Rightarrow> getDeployTarget_save this created enable tr5)))))"

subsection \<open>\<^verbatim>\<open>createNewDeploy\<close>\<close>

definition createNewDeploy ::
  "Deployer \<Rightarrow> DeployTargetInfo \<Rightarrow> trace \<Rightarrow> (error + string) \<times> trace" where
  "createNewDeploy this deployTarget tr =
     (case deployTarget of
        Create workspace slug title accessLevel \<Rightarrow> (Inl (JsError ''Incorrect deployTarget state''), tr)
      | Existing workspace project \<Rightarrow>
          (case (case opt_message (deployOptions this) of
                   Some m \<Rightarrow> (Inr m, tr)
                 | None \<Rightarrow>
                     if isTty (effects this)
                     then (case call (textPrompt (effects this) ''What changed in this deploy?'')
                                  (TextPrompt ''What changed in this deploy?'') tr of
                             (Canceled, tr1) \<Rightarrow> (Inl (userCanceled ''User canceled deploy''), tr1)
                           | (Answered input, tr1) \<Rightarrow> (Inr input, tr1))
                     else (Inr [], tr)) of
             (Inl e, tr1) \<Rightarrow> (Inl e, tr1)
           | (Inr msg, tr1) \<Rightarrow>
               (case call (postDeploy (apiClient this) (project_id project) msg)
                       (PostDeploy (project_id project) msg) tr1 of
                  (Inr deployId, tr2) \<Rightarrow> (Inr deployId, tr2)
                | (Inl e, tr2) \<Rightarrow>
                    (case e of
                       HttpError c \<Rightarrow>
                         if c = 404
                         then (Inl (CliError (''App '' @ project_slug project @ '' in workspace @''
                                      @ ws_login workspace @ '' not found.'') (Some e) None None), tr2)
                         else if c = 403
                         then (Inl (CliError (''You don't have permission to deploy to ''
                                      @ project_slug project @ '' in workspace @''
                                      @ ws_login workspace @ ''.'') (Some e) None None), tr2)
                         else (Inl e, tr2)
                     | other \<Rightarrow> (Inl e, tr2)))))"

subsection \<open>Build files and their modification times\<close>

text \<open>
  Modelled from the spec: \<^verbatim>\<open>isEnoent\<close> and \<^verbatim>\<open>CliError.match\<close> of \<^verbatim>\<open>error.ts\<close> are not among the
  sources. The spec's missing-file condition is the error \<open>Enoent\<close>; \<^verbatim>\<open>CliError.match\<close> with
  \<^verbatim>\<open>{message: /No build files found/}\<close> holds of a \<^verbatim>\<open>CliError\<close> whose message contains that
  text.
\<close>

definition isEnoent :: "error \<Rightarrow> bool" where
  "isEnoent e = (e = Enoent)"

fun containsText :: "string \<Rightarrow> string \<Rightarrow> bool" where
  "containsText pat [] = (pat = [])"
| "containsText pat (c # cs) = (prefix pat (c # cs) \<or> containsText pat cs)"

fun matchNoBuildFiles :: "error \<Rightarrow> bool" where
  "matchNoBuildFiles (CliError msg cause pr code) = containsText ''No build files found'' msg"
| "matchNoBuildFiles e = False"

definition findBuildFiles :: "Deployer \<Rightarrow> trace \<Rightarrow> (error + string list) \<times> trace" where
  "findBuildFiles this tr =
     (case call (visitFiles (effects this) (cfg_output (opt_config (deployOptions this))))
             (VisitFiles (cfg_output (opt_config (deployOptions this)))) tr of
        ((buildFilePaths, Some e), tr1) \<Rightarrow>
          if isEnoent e
          then (Inl (CliError (''No build files found at ''
                                 @ cfg_output (opt_config (deployOptions this)))
                       (Some e) None None), tr1)
          else (Inl e, tr1)
      | ((buildFilePaths, None), tr1) \<Rightarrow>
          if length buildFilePaths = 0
          then (Inl (plainCliError (''No build files found at ''
                                      @ cfg_output (opt_config (deployOptions this)))), tr1)
          else (Inr buildFilePaths, tr1))"

text \<open>The body of the two \<^verbatim>\<open>for await\<close> loops: \<open>newer\<close> says when the running value is
  replaced by the time of the file.\<close>

fun statLoop ::
  "DeployEffects \<Rightarrow> (real \<Rightarrow> jsnum \<Rightarrow> bool) \<Rightarrow> string \<Rightarrow> string list \<Rightarrow> jsnum \<Rightarrow> trace
     \<Rightarrow> (error + jsnum) \<times> trace" where
  "statLoop eff newer dir [] acc tr = (Inr acc, tr)"
| "statLoop eff newer dir (file # rest) acc tr =
     (case call (stat eff (pathJoin eff [dir, file])) (Stat (pathJoin eff [dir, file])) tr of
        (Inl e, tr1) \<Rightarrow> (Inl e, tr1)
      | (Inr mtimeMs, tr1) \<Rightarrow>
          statLoop eff newer dir rest (if newer mtimeMs acc then Num mtimeMs else acc) tr1)"

definition findLeastRecentBuildMtimeMs :: "Deployer \<Rightarrow> trace \<Rightarrow> (error + jsnum) \<times> trace" where
  "findLeastRecentBuildMtimeMs this tr =
     (case call (visitFiles (effects this) (cfg_output (opt_config (deployOptions this))))
             (VisitFiles (cfg_output (opt_config (deployOptions this)))) tr of
        ((files, err), tr1) \<Rightarrow>
          (case statLoop (effects this) (\<lambda>m acc. jgt acc (Num m))
                  (cfg_output (opt_config (deployOptions this))) files PosInfinity tr1 of
             (Inl e, tr2) \<Rightarrow> (Inl e, tr2)
           | (Inr leastRecentMtimeMs, tr2) \<Rightarrow>
               (case err of Some e \<Rightarrow> (Inl e, tr2) | None \<Rightarrow> (Inr leastRecentMtimeMs, tr2))))"

definition findMostRecentSourceMtimeMs :: "Deployer \<Rightarrow> trace \<Rightarrow> (error + jsnum) \<times> trace" where
  "findMostRecentSourceMtimeMs this tr =
     (case call (visitFiles (effects this) (cfg_root (opt_config (deployOptions this))))
             (VisitFiles (cfg_root (opt_config (deployOptions this)))) tr of
        ((files, err), tr1) \<Rightarrow>
          (case statLoop (effects this) (\<lambda>m acc. jgt (Num m) acc)
                  (cfg_root (opt_config (deployOptions this))) files NegInfinity tr1 of
             (Inl e, tr2) \<Rightarrow> (Inl e, tr2)
           | (Inr mostRecentMtimeMs, tr2) \<Rightarrow>
               (case err of
                  Some e \<Rightarrow> (Inl e, tr2)
                | None \<Rightarrow>
                    (let cachePath = pathJoin (effects this)
                           [cfg_root (opt_config (deployOptions this)), ''.observablehq/cache'']
                     in case call (stat (effects this) cachePath) (Stat cachePath) tr2 of
                          (Inr mtimeMs, tr3) \<Rightarrow>
                            (Inr (if jgt (Num mtimeMs) mostRecentMtimeMs then Num mtimeMs
                                  else mostRecentMtimeMs), tr3)
                        | (Inl e, tr3) \<Rightarrow>
                            if \<not> isEnoent e then (Inl e, tr3)
                            else (Inr mostRecentMtimeMs, tr3)))))"

subsection \<open>\<^verbatim>\<open>getBuildFilePaths\<close>\<close>

text \<open>The first \<^verbatim>\<open>try\<close>: it gives \<^verbatim>\<open>doBuild\<close> and \<^verbatim>\<open>buildFilePaths\<close>.\<close>

definition getBuildFilePaths_find ::
  "Deployer \<Rightarrow> trace \<Rightarrow> (error + bool \<times> string list option) \<times> trace" where
  "getBuildFilePaths_find this tr =
     (case findBuildFiles this tr of
        (Inr buildFilePaths, tr1) \<Rightarrow>
          (Inr (opt_force (deployOptions this) = Some ForceBuild, Some buildFilePaths), tr1)
      | (Inl e, tr1) \<Rightarrow>
          if matchNoBuildFiles e
          then (if opt_force (deployOptions this) = Some ForceDeploy
                then (Inl (plainCliError ''No build files found.''), tr1)
                else if opt_force (deployOptions this) = None
                then (if isTty (effects this)
                      then (case call (confirm (effects this)
                                         \<lparr>cf_message = ''No build files found. Do you want to build the app now?'',
                                          cf_initialValue = None\<rparr>)
                                   (Confirm \<lparr>cf_message = ''No build files found. Do you want to build the app now?'',
                                             cf_initialValue = None\<rparr>) tr1 of
                              (Answered True, tr2) \<Rightarrow> (Inr (True, None), tr2)
                            | (other, tr2) \<Rightarrow> (Inl (userCanceled ''User canceled deploy''), tr2))
                      else (Inr (True, None), tr1))
                else (Inr (opt_force (deployOptions this) = Some ForceBuild, None), tr1))
          else (Inl e, tr1))"

text \<open>The block \<^verbatim>\<open>if (!doBuild && !this.deployOptions.force && this.effects.isTty)\<close>; it gives
  the new \<^verbatim>\<open>doBuild\<close>.\<close>

definition rebuildPrompt :: "bool \<Rightarrow> ConfirmOptions" where
  "rebuildPrompt initialValue =
     \<lparr>cf_message = ''Would you like to build again before deploying?'',
      cf_initialValue = Some initialValue\<rparr>"

definition getBuildFilePaths_stale :: "Deployer \<Rightarrow> bool \<Rightarrow> trace \<Rightarrow> (error + bool) \<times> trace" where
  "getBuildFilePaths_stale this doBuild tr =
     (if \<not> doBuild \<and> opt_force (deployOptions this) = None \<and> isTty (effects this)
      then (case findLeastRecentBuildMtimeMs this tr of
              (Inl e, tr1) \<Rightarrow> (Inl e, tr1)
            | (Inr leastRecentBuildMtimeMs, tr1) \<Rightarrow>
                (case findMostRecentSourceMtimeMs this tr1 of
                   (Inl e, tr2) \<Rightarrow> (Inl e, tr2)
                 | (Inr mostRecentSourceMtimeMs, tr2) \<Rightarrow>
                     (case call (now (effects this)) DateNow tr2 of (t, tr3) \<Rightarrow>
                        (let buildAge = jsub (real_of_int t) leastRecentBuildMtimeMs;
                             initialValue =
                               (if jgt mostRecentSourceMtimeMs leastRecentBuildMtimeMs then True
                                else jgt buildAge (Num BUILD_AGE_WARNING_MS))
                         in case call (confirm (effects this) (rebuildPrompt initialValue))
                                   (Confirm (rebuildPrompt initialValue)) tr3 of
                              (Canceled, tr4) \<Rightarrow> (Inl (userCanceled ''User canceled deploy''), tr4)
                            | (Answered choice, tr4) \<Rightarrow> (Inr choice, tr4)))))
      else (Inr doBuild, tr))"

definition getBuildFilePaths :: "Deployer \<Rightarrow> trace \<Rightarrow> (error + string list) \<times> trace" where
  "getBuildFilePaths this tr =
     (case getBuildFilePaths_find this tr of
        (Inl e, tr1) \<Rightarrow> (Inl e, tr1)
      | (Inr (doBuild0, found), tr1) \<Rightarrow>
          (case getBuildFilePaths_stale this doBuild0 tr1 of
             (Inl e, tr2) \<Rightarrow> (Inl e, tr2)
           | (Inr doBuild, tr2) \<Rightarrow>
               (case (if doBuild
                      then (case call (build (effects this)) Build tr2 of
                              (Inl e, tr3) \<Rightarrow> (Inl e, tr3)
                            | (Inr u, tr3) \<Rightarrow>
                                (case findBuildFiles this tr3 of
                                   (Inl e, tr4) \<Rightarrow> (Inl e, tr4)
                                 | (Inr paths, tr4) \<Rightarrow> (Inr (Some paths), tr4)))
                      else (Inr found, tr2)) of
                  (Inl e, tr3) \<Rightarrow> (Inl e, tr3)
                | (Inr None, tr3) \<Rightarrow> (Inl (JsError ''No build files found.''), tr3)
                | (Inr (Some buildFilePaths), tr3) \<Rightarrow> (Inr buildFilePaths, tr3))))"

subsection \<open>\<^verbatim>\<open>uploadFiles\<close>\<close>

text \<open>
  Modelled from the spec: \<^verbatim>\<open>runAllWithConcurrencyLimit\<close> of \<^verbatim>\<open>concurrency.ts\<close> is not among
  the sources. By the spec the runner runs the work over the items with at most a given
  number in flight; a failure of one item does not necessarily stop the others from
  starting; and either all items complete, or the first error met surfaces once all the
  work that was launched has settled. The model starts the items in the order of the list,
  one after the other (a schedule that any limit allows). As long as no item has failed
  every item is started. After the first failure it is the outside that says how many of
  the following items are still started (\<open>launched\<close>, given the limit and the history:
  anything from none to all of them); these run to their end whatever their outcome
  (\<open>settle\<close>), and then the first error surfaces. \<open>s\<close> is what the workers share (the array
  they push to). Under a limit above one the calls of different items may interleave in
  another order than the one of this schedule.
\<close>

fun settle ::
  "'a list \<Rightarrow> ('a \<Rightarrow> nat \<Rightarrow> 's \<Rightarrow> trace \<Rightarrow> (error option \<times> 's) \<times> trace) \<Rightarrow> nat \<Rightarrow> 's \<Rightarrow> trace
     \<Rightarrow> 's \<times> trace" where
  "settle [] worker i s tr = (s, tr)"
| "settle (task # tasks) worker i s tr =
     (case worker task i s tr of ((err, s1), tr1) \<Rightarrow> settle tasks worker (Suc i) s1 tr1)"

fun runAllWithConcurrencyLimit ::
  "'a list \<Rightarrow> ('a \<Rightarrow> nat \<Rightarrow> 's \<Rightarrow> trace \<Rightarrow> (error option \<times> 's) \<times> trace) \<Rightarrow> nat option
     \<Rightarrow> (nat option \<Rightarrow> trace \<Rightarrow> nat) \<Rightarrow> nat \<Rightarrow> 's \<Rightarrow> trace \<Rightarrow> (error option \<times> 's) \<times> trace" where
  "runAllWithConcurrencyLimit [] worker maxConcurrency launched i s tr = ((None, s), tr)"
| "runAllWithConcurrencyLimit (task # tasks) worker maxConcurrency launched i s tr =
     (case worker task i s tr of
        ((None, s1), tr1) \<Rightarrow>
          runAllWithConcurrencyLimit tasks worker maxConcurrency launched (Suc i) s1 tr1
      | ((Some e, s1), tr1) \<Rightarrow>
          (case settle (take (launched maxConcurrency tr1) tasks) worker (Suc i) s1 tr1 of
             (s2, tr2) \<Rightarrow> ((Some e, s2), tr2)))"

definition hashWorker ::
  "Deployer \<Rightarrow> string \<Rightarrow> nat \<Rightarrow> DeployManifestFile list \<Rightarrow> trace
     \<Rightarrow> (error option \<times> DeployManifestFile list) \<times> trace" where
  "hashWorker this path i manifestFileInfo tr =
     (let fullPath = pathJoin (effects this) [cfg_output (opt_config (deployOptions this)), path]
      in case call (fsStat (effects this) fullPath) (FsStat fullPath) tr of
           (Inl e, tr1) \<Rightarrow> ((Some e, manifestFileInfo), tr1)
         | (Inr fileSize, tr1) \<Rightarrow>
             (case call (readFile (effects this) fullPath) (ReadFile fullPath) tr1 of
                (Inl e, tr2) \<Rightarrow> ((Some e, manifestFileInfo), tr2)
              | (Inr bytes, tr2) \<Rightarrow>
                  ((None, manifestFileInfo @ [\<lparr>mf_path = path, mf_size = fileSize,
                                               mf_hash = sha512Base64 (effects this) bytes\<rparr>]),
                   tr2)))"

text \<open>\<^verbatim>\<open>waitForRateLimit\<close>: nothing for at most 300 files, \<^verbatim>\<open>rateLimiter.wait()\<close> otherwise.\<close>

definition waitForRateLimit :: "string list \<Rightarrow> trace \<Rightarrow> trace" where
  "waitForRateLimit filesToUpload tr =
     (if length filesToUpload \<le> 300 then tr else tr @ [RateLimiterWait])"

definition uploadWorker ::
  "Deployer \<Rightarrow> string \<Rightarrow> string list \<Rightarrow> string \<Rightarrow> nat \<Rightarrow> unit \<Rightarrow> trace
     \<Rightarrow> (error option \<times> unit) \<times> trace" where
  "uploadWorker this deployId filesToUpload path i u tr =
     (let fullPath = pathJoin (effects this) [cfg_output (opt_config (deployOptions this)), path]
      in case call (postDeployFile (apiClient this) deployId fullPath path)
                (PostDeployFile deployId fullPath path) (waitForRateLimit filesToUpload tr) of
           (Inl e, tr1) \<Rightarrow> ((Some e, ()), tr1)
         | (Inr v, tr1) \<Rightarrow> ((None, ()), tr1))"

definition manifestRejected :: "Instructions \<Rightarrow> bool" where
  "manifestRejected instructions =
     (ins_status instructions = ''error''
      \<or> length (filter (\<lambda>f. fi_status f = ''error'') (ins_files instructions)) \<noteq> 0)"

definition rejectionError :: "Instructions \<Rightarrow> error" where
  "rejectionError instructions =
     plainCliError (''Server rejected deploy manifest''
        @ (case ins_detail instructions of
             None \<Rightarrow> []
           | Some detail \<Rightarrow> if detail \<noteq> [] then '': '' @ detail else []))"

definition filesToUploadOf :: "Instructions \<Rightarrow> string list" where
  "filesToUploadOf instructions =
     map fi_path (filter (\<lambda>instruction. fi_status instruction = ''upload'') (ins_files instructions))"

definition uploadFiles ::
  "Deployer \<Rightarrow> string \<Rightarrow> string list \<Rightarrow> trace \<Rightarrow> (error + unit) \<times> trace" where
  "uploadFiles this deployId buildFilePaths tr =
     (case runAllWithConcurrencyLimit buildFilePaths (hashWorker this) None
             (launchedAfterFailure (effects this)) 0 [] tr of
        ((Some e, partial), tr1) \<Rightarrow> (Inl e, tr1)
      | ((None, manifestFileInfo), tr1) \<Rightarrow>
          (case call (postDeployManifest (apiClient this) deployId manifestFileInfo)
                  (PostDeployManifest deployId manifestFileInfo) tr1 of
             (Inl e, tr2) \<Rightarrow> (Inl e, tr2)
           | (Inr instructions, tr2) \<Rightarrow>
               if manifestRejected instructions then (Inl (rejectionError instructions), tr2)
               else (case runAllWithConcurrencyLimit (filesToUploadOf instructions)
                            (uploadWorker this deployId (filesToUploadOf instructions))
                            (opt_maxConcurrency (deployOptions this))
                            (launchedAfterFailure (effects this)) 0 () tr2 of
                       ((Some e, u), tr3) \<Rightarrow> (Inl e, tr3)
                     | ((None, u), tr3) \<Rightarrow> (Inr (), tr3))))"

subsection \<open>\<^verbatim>\<open>markDeployUploaded\<close> and the two deploy flows\<close>

definition markDeployUploaded :: "Deployer \<Rightarrow> string \<Rightarrow> trace \<Rightarrow> (error + unit) \<times> trace" where
  "markDeployUploaded this deployId tr =
     (case call (readBuildManifest (effects this) (cfg_root (opt_config (deployOptions this)))
                   ''_build.json'')
             (ReadCacheFile (cfg_root (opt_config (deployOptions this))) ''_build.json'') tr of
        (r, tr1) \<Rightarrow>
          (let buildManifest = (case r of Inl e \<Rightarrow> None | Inr m \<Rightarrow> Some m)
           in call (postDeployUploaded (apiClient this) deployId buildManifest)
                (PostDeployUploaded deployId buildManifest) tr1))"

text \<open>The upload steps that both flows share: files, uploaded mark, completion poll.\<close>

definition uploadAndPoll ::
  "Deployer \<Rightarrow> string \<Rightarrow> string list \<Rightarrow> trace \<Rightarrow> ((error + GetDeployResponse) \<times> trace) option" where
  "uploadAndPoll this deployId buildFilePaths tr =
     (case uploadFiles this deployId buildFilePaths tr of
        (Inl e, tr1) \<Rightarrow> Some (Inl e, tr1)
      | (Inr u, tr1) \<Rightarrow>
          (case markDeployUploaded this deployId tr1 of
             (Inl e, tr2) \<Rightarrow> Some (Inl e, tr2)
           | (Inr v, tr2) \<Rightarrow> pollForProcessingCompletion this deployId tr2))"

definition continueExistingDeploy ::
  "Deployer \<Rightarrow> trace \<Rightarrow> ((error + GetDeployResponse) \<times> trace) option" where
  "continueExistingDeploy this tr =
     (case opt_deployId (deployOptions this) of
        None \<Rightarrow> Some (Inl (JsError ''invalid deploy options''), tr)
      | Some deployId \<Rightarrow>
          if deployId = [] then Some (Inl (JsError ''invalid deploy options''), tr)
          else (case checkDeployCreated this deployId tr of
                  (Inl e, tr1) \<Rightarrow> Some (Inl e, tr1)
                | (Inr info, tr1) \<Rightarrow>
                    (case getBuildFilePaths this tr1 of
                       (Inl e, tr2) \<Rightarrow> Some (Inl e, tr2)
                     | (Inr buildFilePaths, tr2) \<Rightarrow> uploadAndPoll this deployId buildFilePaths tr2)))"

text \<open>The first line of \<^verbatim>\<open>startNewDeploy\<close>:
  \<^verbatim>\<open>this.getDeployTarget(await this.getUpdatedDeployConfig())\<close>.\<close>

definition resolveDeployTarget ::
  "Deployer \<Rightarrow> trace \<Rightarrow> (error + DeployConfig \<times> DeployTargetInfo) \<times> trace" where
  "resolveDeployTarget this tr =
     (case getUpdatedDeployConfig this tr of
        (Inl e, tr1) \<Rightarrow> (Inl e, tr1)
      | (Inr deployConfig, tr1) \<Rightarrow> getDeployTarget this deployConfig tr1)"

text \<open>A deploy id that is \<^verbatim>\<open>null\<close> reaches the API as the text \<^verbatim>\<open>null\<close>.\<close>

definition startNewDeploy ::
  "Deployer \<Rightarrow> trace \<Rightarrow> ((error + GetDeployResponse) \<times> trace) option" where
  "startNewDeploy this tr =
     (case resolveDeployTarget this tr of
        (Inl e, tr1) \<Rightarrow> Some (Inl e, tr1)
      | (Inr (deployConfig, deployTarget), tr1) \<Rightarrow>
          if continuousDeployment deployConfig = Some True
          then (case validateGitHubLink this deployTarget tr1 of
                  None \<Rightarrow> None
                | Some (Inl e, tr2) \<Rightarrow> Some (Inl e, tr2)
                | Some (Inr u, tr2) \<Rightarrow>
                    (case cloudBuild this deployTarget tr2 of
                       None \<Rightarrow> None
                     | Some (Inl e, tr3) \<Rightarrow> Some (Inl e, tr3)
                     | Some (Inr deployId, tr3) \<Rightarrow>
                         pollForProcessingCompletion this
                           (case deployId of None \<Rightarrow> ''null'' | Some d \<Rightarrow> d) tr3))
          else (case getBuildFilePaths this tr1 of
                  (Inl e, tr2) \<Rightarrow> Some (Inl e, tr2)
                | (Inr buildFilePaths, tr2) \<Rightarrow>
                    (case createNewDeploy this deployTarget tr2 of
                       (Inl e, tr3) \<Rightarrow> Some (Inl e, tr3)
                     | (Inr deployId, tr3) \<Rightarrow> uploadAndPoll this deployId buildFilePaths tr3)))"

subsection \<open>Rounds of a polling loop\<close>

text \<open>
  A round is what one iteration that goes on adds to the history: the clock is read, the
  action is invoked, the loop sleeps. \<open>afterRounds tr rnd k\<close> is the history after \<open>k\<close> such
  rounds.
\<close>

fun afterRounds :: "trace \<Rightarrow> event list \<Rightarrow> nat \<Rightarrow> trace" where
  "afterRounds tr rnd 0 = tr"
| "afterRounds tr rnd (Suc k) = afterRounds tr rnd k @ rnd"

definition pollRound :: "string \<Rightarrow> nat \<Rightarrow> event list" where
  "pollRound deployId pollInterval = [DateNow, GetDeploy deployId, Sleep pollInterval]"

text \<open>An iteration of the completion poll that starts at \<open>tr\<close> goes on: the deadline has not
  passed and the deploy is still \<^verbatim>\<open>created\<close> or \<^verbatim>\<open>pending\<close>.\<close>

definition stillProcessing :: "Deployer \<Rightarrow> string \<Rightarrow> int \<Rightarrow> trace \<Rightarrow> bool" where
  "stillProcessing this deployId pollExpiration tr =
     (\<not> now (effects this) tr > pollExpiration
      \<and> (case getDeploy (apiClient this) deployId (tr @ [DateNow]) of
           Inl e \<Rightarrow> False
         | Inr d \<Rightarrow> deploy_status d = ''created'' \<or> deploy_status d = ''pending''))"

text \<open>The deploy record that the last of \<open>k\<close> rounds fetched; none before the first.\<close>

fun lastDeployInfo :: "Deployer \<Rightarrow> string \<Rightarrow> trace \<Rightarrow> nat \<Rightarrow> GetDeployResponse option" where
  "lastDeployInfo this deployId tr 0 = None"
| "lastDeployInfo this deployId tr (Suc k) =
     (case getDeploy (apiClient this) deployId
             (afterRounds tr (pollRound deployId (pollIntervalOf this)) k @ [DateNow]) of
        Inl e \<Rightarrow> None
      | Inr d \<Rightarrow> Some d)"

definition buildRound :: "Workspace \<Rightarrow> GetProjectResponse \<Rightarrow> nat \<Rightarrow> event list" where
  "buildRound workspace project pollInterval =
     [DateNow, GetProject (ws_login workspace) (project_slug project), Sleep pollInterval]"

text \<open>An iteration of the cloud-build poll that starts at \<open>tr\<close> goes on: the deadline has not
  passed and the project still shows the deploy id it had before the trigger.\<close>

definition stillRequesting ::
  "Deployer \<Rightarrow> Workspace \<Rightarrow> GetProjectResponse \<Rightarrow> int \<Rightarrow> trace \<Rightarrow> bool" where
  "stillRequesting this workspace project pollExpiration tr =
     (\<not> now (effects this) tr > pollExpiration
      \<and> (case getProject (apiClient this) (ws_login workspace) (project_slug project)
                (tr @ [DateNow]) of
           Inl e \<Rightarrow> False
         | Inr p \<Rightarrow> latestCreatedDeployId p = latestCreatedDeployId project))"

subsection \<open>Counting calls in a history\<close>

fun isSetDeployConfig :: "event \<Rightarrow> bool" where
  "isSetDeployConfig (SetDeployConfig dir path deployConfig) = True"
| "isSetDeployConfig e = False"

fun isPostProject :: "event \<Rightarrow> bool" where
  "isPostProject (PostProject slug title workspaceId accessLevel) = True"
| "isPostProject e = False"

fun isPostDeployFile :: "event \<Rightarrow> bool" where
  "isPostDeployFile (PostDeployFile deployId fullPath path) = True"
| "isPostDeployFile e = False"

fun isRateLimiterWait :: "event \<Rightarrow> bool" where
  "isRateLimiterWait RateLimiterWait = True"
| "isRateLimiterWait e = False"

fun isConfirm :: "event \<Rightarrow> bool" where
  "isConfirm (Confirm options) = True"
| "isConfirm e = False"

definition calls :: "(event \<Rightarrow> bool) \<Rightarrow> trace \<Rightarrow> nat" where
  "calls P tr = length (filter P tr)"

text \<open>Whether the search of \<open>searchWorkspaces\<close> started at \<open>tr\<close> comes to a workspace whose
  project list has the project id of the config.\<close>

fun searchFinds :: "Deployer \<Rightarrow> DeployConfig \<Rightarrow> Workspace list \<Rightarrow> trace \<Rightarrow> bool" where
  "searchFinds this deployConfig [] tr = False"
| "searchFinds this deployConfig (workspace # rest) tr =
     (case getWorkspaceProjects (apiClient this) (ws_login workspace) tr of
        Inl e \<Rightarrow> False
      | Inr projects \<Rightarrow>
          (case find (\<lambda>p. Some (project_id p) = projectId deployConfig) projects of
             Some project \<Rightarrow> True
           | None \<Rightarrow> searchFinds this deployConfig rest
                      (tr @ [GetWorkspaceProjects (ws_login workspace)])))"

text \<open>Whether \<^verbatim>\<open>getUpdatedDeployConfig\<close> started at \<open>tr\<close> loads a config with a project id but
  without slug or login, and finds the project.\<close>

definition backfills :: "Deployer \<Rightarrow> trace \<Rightarrow> bool" where
  "backfills this tr =
     (case getDeployConfig (effects this) (cfg_root (opt_config (deployOptions this)))
             (opt_deployConfigPath (deployOptions this)) tr of
        Inl e \<Rightarrow> False
      | Inr deployConfig \<Rightarrow>
          truthy (projectId deployConfig)
          \<and> (\<not> truthy (projectSlug deployConfig) \<or> \<not> truthy (workspaceLogin deployConfig))
          \<and> searchFinds this deployConfig (workspaces (currentUser this))
               (tr @ [GetDeployConfig (cfg_root (opt_config (deployOptions this)))
                        (opt_deployConfigPath (deployOptions this))]))"

subsection \<open>A concrete outside for the examples\<close>

text \<open>
  Every API call fails with status 500, no terminal is attached, every prompt is canceled,
  the file system is empty and the clock stands at 0. The examples change the fields
  they are about.
\<close>

definition testApi :: ObservableApiClient where
  "testApi =
     \<lparr>getDeploy = (\<lambda>deployId tr. Inl (HttpError 500)),
      getProject = (\<lambda>login slug tr. Inl (HttpError 500)),
      postProjectBuild = (\<lambda>projectId tr. Inl (HttpError 500)),
      getGitHubRepository = (\<lambda>key tr. Inl (HttpError 500)),
      postProjectEnvironment = (\<lambda>projectId source tr. Inl (HttpError 500)),
      getWorkspaceProjects = (\<lambda>login tr. Inl (HttpError 500)),
      postProject = (\<lambda>slug title workspaceId accessLevel tr. Inl (HttpError 500)),
      postDeploy = (\<lambda>projectId msg tr. Inl (HttpError 500)),
      postDeployManifest = (\<lambda>deployId files tr. Inl (HttpError 500)),
      postDeployFile = (\<lambda>deployId fullPath path tr. Inl (HttpError 500)),
      postDeployUploaded = (\<lambda>deployId manifest tr. Inl (HttpError 500))\<rparr>"

definition testEffects :: DeployEffects where
  "testEffects =
     \<lparr>isTty = False,
      now = (\<lambda>tr. 0),
      existsSync = (\<lambda>path tr. False),
      exec = (\<lambda>command tr. Inl (OtherError ''exec failed'')),
      urlPathname = (\<lambda>u. Inr (drop 18 u)),
      pathJoin = (\<lambda>parts. case parts of [] \<Rightarrow> ''.''
                  | p # ps \<Rightarrow> p @ concat (map (\<lambda>part. CHR ''/'' # part) ps)),
      link = (\<lambda>u. u),
      uiOrigin = ''https://observablehq.com/'',
      sha512Base64 = (\<lambda>bytes. bytes),
      getDeployConfig = (\<lambda>dir path tr. Inr \<lparr>projectId = None, projectSlug = None,
                                              workspaceLogin = None, continuousDeployment = None\<rparr>),
      setDeployConfig = (\<lambda>dir path deployConfig tr. Inr ()),
      confirm = (\<lambda>options tr. Canceled),
      textPrompt = (\<lambda>msg tr. Canceled),
      selectWorkspace = (\<lambda>options tr. Canceled),
      selectProject = (\<lambda>options tr. Canceled),
      selectAccessLevel = (\<lambda>tr. Canceled),
      visitFiles = (\<lambda>dir tr. ([], Some Enoent)),
      stat = (\<lambda>path tr. Inl Enoent),
      fsStat = (\<lambda>path tr. Inl Enoent),
      readFile = (\<lambda>path tr. Inl Enoent),
      build = (\<lambda>tr. Inr ()),
      readBuildManifest = (\<lambda>dir path tr. Inl Enoent),
      launchedAfterFailure = (\<lambda>maxConcurrency tr. 0)\<rparr>"

definition testOptions :: DeployOptions where
  "testOptions =
     \<lparr>opt_config = \<lparr>cfg_root = ''src'', cfg_output = ''dist'', cfg_title = Some ''App''\<rparr>,
      opt_deployConfigPath = None,
      opt_message = None,
      opt_deployPollInterval = None,
      opt_force = None,
      opt_maxConcurrency = None,
      opt_deployId = None\<rparr>"

definition testWorkspace :: Workspace where
  "testWorkspace = \<lparr>ws_id = ''w1'', ws_login = ''acme''\<rparr>"

definition testProject :: GetProjectResponse where
  "testProject =
     \<lparr>project_id = ''p1'', project_slug = ''my-app'', project_title = ''App'',
      project_owner = testWorkspace, latestCreatedDeployId = Some ''d1'',
      build_environment_id = Some ''env1'', project_source = None\<rparr>"

definition testDeployer :: Deployer where
  "testDeployer =
     \<lparr>deployOptions = testOptions, effects = testEffects, apiClient = testApi,
      currentUser = \<lparr>workspaces = [testWorkspace]\<rparr>\<rparr>"

text \<open>An outside whose clock advances by \<open>step\<close> milliseconds with every call, where the
  build trigger is accepted, the deploy stays \<^verbatim>\<open>pending\<close> and the project keeps the deploy
  id of \<open>testProject\<close>.\<close>

definition pollingDeployer :: "int \<Rightarrow> Deployer" where
  "pollingDeployer step =
     testDeployer
       \<lparr>effects := testEffects\<lparr>now := (\<lambda>tr. int (length tr) * step)\<rparr>,
        apiClient := testApi
          \<lparr>getDeploy := (\<lambda>deployId tr. Inr \<lparr>deploy_id = deployId, deploy_status = ''pending'',
                                             deploy_url = ''https://example.com''\<rparr>),
           getProject := (\<lambda>login slug tr. Inr testProject),
           postProjectBuild := (\<lambda>projectId tr. Inr ())\<rparr>\<rparr>"

text \<open>An outside at the root of a git repository whose first remote is
  \<^verbatim>\<open>git@github.com:acme/my-app.git\<close> and whose branch is printed as \<open>branchOut\<close>; the lookup of
  the local repository answers \<open>localRepo\<close>, the lookup by provider id answers \<open>remoteRepo\<close>.\<close>

definition testRepo :: GitHubRepository where
  "testRepo = \<lparr>repo_provider = ''github'', repo_provider_id = ''42'',
               repo_url = ''https://github.com/acme/my-app''\<rparr>"

definition gitDeployer ::
  "string \<Rightarrow> GitHubRepository option \<Rightarrow> GitHubRepository option \<Rightarrow> Deployer" where
  "gitDeployer branchOut localRepo remoteRepo =
     testDeployer
       \<lparr>effects := testEffects
          \<lparr>existsSync := (\<lambda>path tr. True),
           exec := (\<lambda>command tr.
              if command = ''git remote -v''
              then Inr (''origin'' @ [CHR 0x09] @ ''git@github.com:acme/my-app.git (fetch)''
                        @ [CHR 0x0A] @ ''origin'' @ [CHR 0x09]
                        @ ''git@github.com:acme/my-app.git (push)'' @ [CHR 0x0A])
              else Inr branchOut)\<rparr>,
        apiClient := testApi
          \<lparr>getGitHubRepository := (\<lambda>key tr.
              case key of ByName ownerName repoName \<Rightarrow> Inr localRepo
              | ByProviderId providerId \<Rightarrow> Inr remoteRepo)\<rparr>\<rparr>"

definition linkedProject :: "string \<Rightarrow> string \<Rightarrow> GetProjectResponse" where
  "linkedProject providerId recordedBranch =
     testProject\<lparr>project_source :=
                   Some \<lparr>src_provider = ''github'', src_provider_id = providerId,
                         src_url = ''https://github.com/acme/my-app'',
                         src_branch = recordedBranch\<rparr>\<rparr>"

text \<open>A legacy config: the project id alone is persisted; the user's workspace lists the
  project.\<close>

definition legacyConfig :: DeployConfig where
  "legacyConfig = \<lparr>projectId = Some ''p1'', projectSlug = None, workspaceLogin = None,
                    continuousDeployment = Some False\<rparr>"

definition legacyDeployer :: Deployer where
  "legacyDeployer =
     testDeployer
       \<lparr>effects := testEffects\<lparr>getDeployConfig := (\<lambda>dir path tr. Inr legacyConfig)\<rparr>,
        apiClient := testApi
          \<lparr>getWorkspaceProjects := (\<lambda>login tr. Inr [testProject]),
           getProject := (\<lambda>login slug tr. Inr testProject)\<rparr>\<rparr>"

text \<open>A fresh project in a terminal: nothing is persisted, the workspace has no project, the
  user agrees to create one with slug \<^verbatim>\<open>my-app\<close> and private access, and declines continuous
  deployment.\<close>

definition creatingDeployer :: Deployer where
  "creatingDeployer =
     testDeployer
       \<lparr>effects := testEffects
          \<lparr>isTty := True,
           confirm := (\<lambda>options tr.
              Answered (cf_message options = ''No apps found. Do you want to create a new app?'')),
           textPrompt := (\<lambda>msg tr. Answered ''my-app''),
           selectAccessLevel := (\<lambda>tr. Answered ''private'')\<rparr>,
        apiClient := testApi
          \<lparr>getWorkspaceProjects := (\<lambda>login tr. Inr []),
           postProject := (\<lambda>slug title workspaceId accessLevel tr. Inr testProject)\<rparr>\<rparr>"

text \<open>An outside with two built files, whose manifest is answered by \<open>instructions\<close> and
  where every upload succeeds.\<close>

definition uploadDeployer :: "Instructions \<Rightarrow> Deployer" where
  "uploadDeployer instructions =
     testDeployer
       \<lparr>effects := testEffects
          \<lparr>fsStat := (\<lambda>path tr. Inr 10),
           readFile := (\<lambda>path tr. Inr path)\<rparr>,
        apiClient := testApi
          \<lparr>postDeployManifest := (\<lambda>deployId files tr. Inr instructions),
           postDeployFile := (\<lambda>deployId fullPath path tr. Inr ())\<rparr>\<rparr>"


definition testManifest :: "DeployManifestFile list" where
  "testManifest =
     [\<lparr>mf_path = ''index.html'', mf_size = 10, mf_hash = ''dist/index.html''\<rparr>,
      \<lparr>mf_path = ''style.css'', mf_size = 10, mf_hash = ''dist/style.css''\<rparr>]"

definition uploadInstruction :: "string \<Rightarrow> FileInstruction" where
  "uploadInstruction path = \<lparr>fi_path = path, fi_status = ''upload'', fi_detail = None\<rparr>"

text \<open>An outside in a terminal with one built file and one source file, whose modification
  times are \<open>buildMtime\<close> and \<open>sourceMtime\<close>, with no cache directory, at the time \<open>nowMs\<close>;
  the user answers every confirmation with "no".\<close>

definition builtDeployer :: "int \<Rightarrow> real \<Rightarrow> real \<Rightarrow> Deployer" where
  "builtDeployer nowMs buildMtime sourceMtime =
     testDeployer
       \<lparr>effects := testEffects
          \<lparr>isTty := True,
           now := (\<lambda>tr. nowMs),
           visitFiles := (\<lambda>dir tr. ([''index.html''], None)),
           stat := (\<lambda>path tr.
              if path = ''dist/index.html'' then Inr buildMtime
              else if path = ''src/index.html'' then Inr sourceMtime
              else Inl Enoent),
           confirm := (\<lambda>options tr. Answered False)\<rparr>\<rparr>"

section \<open>Properties\<close>

subsection \<open>\<^verbatim>\<open>checkDeployCreated\<close>\<close>

text \<open>
  C10. \<^verbatim>\<open>checkDeployCreated\<close> turns every HTTP error of the deploy-status fetch, whatever
  its status code, into the fatal error "Deploy <id> not found." with the HTTP error as
  cause; an error that is not an HTTP error propagates unchanged, and so does the
  unexpected-status error that the function raises itself when the fetched status is not
  \<^verbatim>\<open>created\<close>.
\<close>

theorem checkDeployCreated_errors:
  "(getDeploy (apiClient this) deployId tr = Inl (HttpError c) \<longrightarrow>
      fst (checkDeployCreated this deployId tr) =
        Inl (CliError (''Deploy '' @ deployId @ '' not found.'') (Some (HttpError c)) None None))
   \<and> (getDeploy (apiClient this) deployId tr = Inl e \<and> \<not> isHttpError e \<longrightarrow>
      fst (checkDeployCreated this deployId tr) = Inl e)
   \<and> (getDeploy (apiClient this) deployId tr = Inr d \<and> deploy_status d \<noteq> ''created'' \<longrightarrow>
      fst (checkDeployCreated this deployId tr) =
        Inl (CliError (''Deploy '' @ deployId @ '' has an unexpected status: '' @ deploy_status d)
               None None None))"
  by (simp add: checkDeployCreated_def checkDeployCreated_try_def call_def)

theorem checkDeployCreated_errors_witness:
  "fst (checkDeployCreated testDeployer ''d1'' [])
     = Inl (CliError ''Deploy d1 not found.'' (Some (HttpError 500)) None None)
   \<and> fst (checkDeployCreated
            (testDeployer\<lparr>apiClient := testApi\<lparr>getDeploy := (\<lambda>i tr. Inl (OtherError ''socket closed''))\<rparr>\<rparr>)
            ''d1'' [])
     = Inl (OtherError ''socket closed'')
   \<and> fst (checkDeployCreated (pollingDeployer 1) ''d1'' [])
     = Inl (CliError ''Deploy d1 has an unexpected status: pending'' None None None)"
  using checkDeployCreated_errors
          [of testDeployer "''d1''" "[]" 500 Enoent
              "\<lparr>deploy_id = ''d1'', deploy_status = ''pending'', deploy_url = ''https://example.com''\<rparr>"]
        checkDeployCreated_errors
          [of "testDeployer\<lparr>apiClient := testApi\<lparr>getDeploy := (\<lambda>i tr. Inl (OtherError ''socket closed''))\<rparr>\<rparr>"
              "''d1''" "[]" 0 "OtherError ''socket closed''"
              "\<lparr>deploy_id = ''d1'', deploy_status = ''pending'', deploy_url = ''https://example.com''\<rparr>"]
        checkDeployCreated_errors
          [of "pollingDeployer 1" "''d1''" "[]" 0 Enoent
              "\<lparr>deploy_id = ''d1'', deploy_status = ''pending'', deploy_url = ''https://example.com''\<rparr>"]
  by (simp add: testDeployer_def testApi_def pollingDeployer_def)

subsection \<open>The polling loops\<close>

lemma pollLoop_expired:
  "pollExpiration < now (effects this) tr \<Longrightarrow>
   pollLoop this deployId pollInterval pollExpiration deployInfo tr =
     Some (Inl (plainCliError (''Deploy failed to process on server: status = ''
                                 @ statusText deployInfo)), tr @ [DateNow])"
  by (subst pollLoop.simps) (simp add: call_def)

lemma pollLoop_round:
  assumes "stillProcessing this deployId pollExpiration tr"
  shows "\<exists>d. getDeploy (apiClient this) deployId (tr @ [DateNow]) = Inr d \<and>
     pollLoop this deployId pollInterval pollExpiration deployInfo tr =
     pollLoop this deployId pollInterval pollExpiration (Some d)
       (tr @ pollRound deployId pollInterval)"
  using assms
  by (subst pollLoop.simps)
     (auto simp add: call_def stillProcessing_def pollRound_def split: sum.splits)

lemma pollLoop_rounds:
  assumes "\<forall>i<k. stillProcessing this deployId pollExpiration
                    (afterRounds tr (pollRound deployId (pollIntervalOf this)) i)"
  shows "pollLoop this deployId (pollIntervalOf this) pollExpiration None tr =
         pollLoop this deployId (pollIntervalOf this) pollExpiration
           (lastDeployInfo this deployId tr k)
           (afterRounds tr (pollRound deployId (pollIntervalOf this)) k)"
  using assms
proof (induction k)
  case 0
  show ?case by simp
next
  case (Suc k)
  let ?r = "pollRound deployId (pollIntervalOf this)"
  have still: "stillProcessing this deployId pollExpiration (afterRounds tr ?r k)"
    using Suc.prems by simp
  have "pollLoop this deployId (pollIntervalOf this) pollExpiration None tr =
        pollLoop this deployId (pollIntervalOf this) pollExpiration
          (lastDeployInfo this deployId tr k) (afterRounds tr ?r k)"
    using Suc by simp
  moreover obtain d
    where d: "getDeploy (apiClient this) deployId (afterRounds tr ?r k @ [DateNow]) = Inr d"
      and "pollLoop this deployId (pollIntervalOf this) pollExpiration
             (lastDeployInfo this deployId tr k) (afterRounds tr ?r k) =
           pollLoop this deployId (pollIntervalOf this) pollExpiration (Some d)
             (afterRounds tr ?r k @ ?r)"
    using pollLoop_round[OF still] by blast
  ultimately show ?case
    by (simp add: d)
qed

lemma pollForProcessingCompletion_timeout:
  assumes "\<forall>i<k. stillProcessing this deployId (now (effects this) tr + DEPLOY_POLL_MAX_MS)
                    (afterRounds (tr @ [DateNow]) (pollRound deployId (pollIntervalOf this)) i)"
    and "now (effects this) tr + DEPLOY_POLL_MAX_MS
           < now (effects this)
               (afterRounds (tr @ [DateNow]) (pollRound deployId (pollIntervalOf this)) k)"
  shows "pollForProcessingCompletion this deployId tr =
     Some (Inl (plainCliError (''Deploy failed to process on server: status = ''
                  @ statusText (lastDeployInfo this deployId (tr @ [DateNow]) k))),
           afterRounds (tr @ [DateNow]) (pollRound deployId (pollIntervalOf this)) k @ [DateNow])"
  unfolding pollForProcessingCompletion_def
  by (simp add: call_def pollLoop_rounds[OF assms(1)] pollLoop_expired[OF assms(2)])

lemma cloudBuild_loop_expired:
  "pollExpiration < now (effects this) tr \<Longrightarrow>
   cloudBuild_loop this workspace project pollInterval pollExpiration tr =
     Some (Inl (plainCliError ''Requesting deploy failed''), tr @ [DateNow])"
  by (subst cloudBuild_loop.simps) (simp add: call_def)

lemma cloudBuild_loop_round:
  assumes "stillRequesting this workspace project pollExpiration tr"
  shows "cloudBuild_loop this workspace project pollInterval pollExpiration tr =
     cloudBuild_loop this workspace project pollInterval pollExpiration
       (tr @ buildRound workspace project pollInterval)"
  using assms
  by (subst cloudBuild_loop.simps)
     (auto simp add: call_def stillRequesting_def buildRound_def split: sum.splits)

lemma cloudBuild_loop_rounds:
  assumes "\<forall>i<k. stillRequesting this workspace project pollExpiration
                    (afterRounds tr (buildRound workspace project pollInterval) i)"
  shows "cloudBuild_loop this workspace project pollInterval pollExpiration tr =
         cloudBuild_loop this workspace project pollInterval pollExpiration
           (afterRounds tr (buildRound workspace project pollInterval) k)"
  using assms
proof (induction k)
  case 0
  show ?case by simp
next
  case (Suc k)
  have "stillRequesting this workspace project pollExpiration
          (afterRounds tr (buildRound workspace project pollInterval) k)"
    using Suc.prems by simp
  from cloudBuild_loop_round[OF this] Suc show ?case by simp
qed

lemma cloudBuild_timeout:
  assumes "postProjectBuild (apiClient this) (project_id project) tr = Inr ()"
    and "tr0 = tr @ [PostProjectBuild (project_id project), DateNow]"
    and "pollExpiration =
           now (effects this) (tr @ [PostProjectBuild (project_id project)]) + DEPLOY_POLL_MAX_MS"
    and "\<forall>i<k. stillRequesting this workspace project pollExpiration
                    (afterRounds tr0 (buildRound workspace project (pollIntervalOf this)) i)"
    and "pollExpiration
           < now (effects this)
               (afterRounds tr0 (buildRound workspace project (pollIntervalOf this)) k)"
  shows "cloudBuild this (Existing workspace project) tr =
     Some (Inl (plainCliError ''Requesting deploy failed''),
           afterRounds tr0 (buildRound workspace project (pollIntervalOf this)) k @ [DateNow])"
proof -
  have "cloudBuild this (Existing workspace project) tr =
        cloudBuild_loop this workspace project (pollIntervalOf this) pollExpiration tr0"
    using assms(1,2,3) by (simp add: cloudBuild_def call_def)
  also have "\<dots> = cloudBuild_loop this workspace project (pollIntervalOf this) pollExpiration
                      (afterRounds tr0 (buildRound workspace project (pollIntervalOf this)) k)"
    by (rule cloudBuild_loop_rounds[OF assms(4)])
  also have "\<dots> = Some (Inl (plainCliError ''Requesting deploy failed''),
           afterRounds tr0 (buildRound workspace project (pollIntervalOf this)) k @ [DateNow])"
    by (rule cloudBuild_loop_expired[OF assms(5)])
  finally show ?thesis .
qed

text \<open>
  C5, as the code has it. Each loop reads the clock once before its first iteration and
  keeps that deadline (the first reading plus \<open>DEPLOY_POLL_MAX_MS\<close>) for all iterations.
  After any number \<open>k\<close> of rounds that went on (\<open>k = 0\<close>: the deadline has passed when the
  loop is entered), an iteration that finds the clock past the deadline ends the loop with
  an error, and it adds only the clock reading to the history: the polled action is not
  invoked in it. The completion poll fails with "Deploy failed to process on server: status
  = S", where \<open>S\<close> is the status fetched in the last round (\<^verbatim>\<open>undefined\<close> when there was
  none). The cloud-build poll fails with the fixed message "Requesting deploy failed", which
  names no status.
\<close>

theorem poll_deadline_fixed_at_entry:
  "((\<forall>i<k. stillProcessing this deployId (now (effects this) tr + DEPLOY_POLL_MAX_MS)
              (afterRounds (tr @ [DateNow]) (pollRound deployId (pollIntervalOf this)) i))
    \<and> now (effects this) tr + DEPLOY_POLL_MAX_MS
        < now (effects this)
            (afterRounds (tr @ [DateNow]) (pollRound deployId (pollIntervalOf this)) k)
    \<longrightarrow> pollForProcessingCompletion this deployId tr =
          Some (Inl (plainCliError (''Deploy failed to process on server: status = ''
                       @ statusText (lastDeployInfo this deployId (tr @ [DateNow]) k))),
                afterRounds (tr @ [DateNow]) (pollRound deployId (pollIntervalOf this)) k
                  @ [DateNow]))
   \<and> (postProjectBuild (apiClient this) (project_id project) tr = Inr ()
      \<and> (\<forall>i<k. stillRequesting this workspace project
                  (now (effects this) (tr @ [PostProjectBuild (project_id project)])
                     + DEPLOY_POLL_MAX_MS)
                  (afterRounds (tr @ [PostProjectBuild (project_id project), DateNow])
                     (buildRound workspace project (pollIntervalOf this)) i))
      \<and> now (effects this) (tr @ [PostProjectBuild (project_id project)]) + DEPLOY_POLL_MAX_MS
          < now (effects this)
              (afterRounds (tr @ [PostProjectBuild (project_id project), DateNow])
                 (buildRound workspace project (pollIntervalOf this)) k)
      \<longrightarrow> cloudBuild this (Existing workspace project) tr =
            Some (Inl (plainCliError ''Requesting deploy failed''),
                  afterRounds (tr @ [PostProjectBuild (project_id project), DateNow])
                    (buildRound workspace project (pollIntervalOf this)) k @ [DateNow]))"
  using pollForProcessingCompletion_timeout[of k this deployId tr]
        cloudBuild_timeout[of this project tr _ _ k workspace, OF _ refl refl]
  by blast

theorem poll_deadline_fixed_at_entry_witness:
  "pollForProcessingCompletion (pollingDeployer 200000) ''d1'' [] =
     Some (Inl (CliError ''Deploy failed to process on server: status = pending'' None None None),
           [DateNow, DateNow, GetDeploy ''d1'', Sleep 5000, DateNow])
   \<and> cloudBuild (pollingDeployer 200000) (Existing testWorkspace testProject) [] =
     Some (Inl (CliError ''Requesting deploy failed'' None None None),
           [PostProjectBuild ''p1'', DateNow, DateNow, GetProject ''acme'' ''my-app'', Sleep 5000,
            DateNow])"
  using poll_deadline_fixed_at_entry
          [of 1 "pollingDeployer 200000" "''d1''" "[]" testProject testWorkspace]
  by (simp add: pollingDeployer_def testDeployer_def testEffects_def testApi_def testOptions_def
        testProject_def testWorkspace_def stillProcessing_def stillRequesting_def
        pollRound_def buildRound_def pollIntervalOf_def DEPLOY_POLL_MAX_MS_def
        DEPLOY_POLL_INTERVAL_MS_def plainCliError_def statusText_def)

text \<open>
  C5 as the spec states it fails for the cloud-build loop: its timeout error is the same
  fixed text whatever was last known. Here the deadline has passed at the first iteration
  of two runs, one for a project whose last created deploy is \<^verbatim>\<open>d1\<close> and one for a project
  that has none.
\<close>

theorem cloudBuild_timeout_names_no_status:
  "cloudBuild (pollingDeployer 400000) (Existing testWorkspace testProject) [] =
     Some (Inl (CliError ''Requesting deploy failed'' None None None),
           [PostProjectBuild ''p1'', DateNow, DateNow])
   \<and> cloudBuild (pollingDeployer 400000)
       (Existing testWorkspace (testProject\<lparr>latestCreatedDeployId := None\<rparr>)) [] =
     Some (Inl (CliError ''Requesting deploy failed'' None None None),
           [PostProjectBuild ''p1'', DateNow, DateNow])"
  by (simp add: cloudBuild_def call_def cloudBuild_loop.simps pollingDeployer_def testDeployer_def
        testEffects_def testApi_def testProject_def DEPLOY_POLL_MAX_MS_def plainCliError_def)

subsection \<open>\<^verbatim>\<open>validateGitHubLink\<close> on a project with a recorded source\<close>

lemma getGitHubRemote_gitDeployer:
  "getGitHubRemote (effects (gitDeployer b l r)) tr =
     (Inr (''acme'', ''my-app''), tr @ [Exec ''git remote -v''])"
  by (simp add: getGitHubRemote_def gitDeployer_def testDeployer_def testEffects_def call_def
        parseRemoteLine_def isSpace_def stripDotGit_def suffix_to_prefix)

lemma gitDeployer_fields:
  "existsSync (effects (gitDeployer b l r)) p tr = True"
  "exec (effects (gitDeployer b l r)) ''git rev-parse --abbrev-ref HEAD'' tr = Inr b"
  "getGitHubRepository (apiClient (gitDeployer b l r)) (ByName ownerName repoName) tr = Inr l"
  "getGitHubRepository (apiClient (gitDeployer b l r)) (ByProviderId providerId) tr = Inr r"
  "link (effects (gitDeployer b l r)) u = u"
  "uiOrigin (effects (gitDeployer b l r)) = ''https://observablehq.com/''"
  by (simp_all add: gitDeployer_def testDeployer_def testEffects_def testApi_def)

lemma localRepository_gitDeployer:
  "localRepository (gitDeployer b l r) tr =
    (Inr (''acme'', ''my-app'', b, l),
     tr @ [ExistsSync ''.git'', Exec ''git remote -v'', Exec ''git rev-parse --abbrev-ref HEAD'',
           GetGitHubRepository (ByName ''acme'' ''my-app'')])"
  by (simp add: localRepository_def getGitHubRemote_gitDeployer gitDeployer_fields call_def)

lemma linkedProject_fields:
  "build_environment_id (linkedProject i b) = Some ''env1''"
  "project_slug (linkedProject i b) = ''my-app''"
  "project_source (linkedProject i b) =
     Some \<lparr>src_provider = ''github'', src_provider_id = i,
           src_url = ''https://github.com/acme/my-app'', src_branch = b\<rparr>"
  by (simp_all add: linkedProject_def testProject_def)

lemma validateGitHubLink_configured_cases:
  assumes "truthy (build_environment_id project)"
    and "localRepository this tr = (Inr (ownerName, repoName, branch, localRepo), tr1)"
    and "project_source project = Some source"
  shows
  "((\<exists>r. localRepo = Some r \<and> src_provider_id source \<noteq> repo_provider_id r) \<longrightarrow>
      validateGitHubLink this (Existing workspace project) tr =
        Some (Inl (settingsError (effects this) (Existing workspace project)
                ''Configured repository does not match local repository; check build settings on ''),
              tr1))
   \<and> ((\<exists>r. localRepo = Some r \<and> src_provider_id source = repo_provider_id r)
        \<and> src_branch source \<noteq> branch \<longrightarrow>
      validateGitHubLink this (Existing workspace project) tr =
        Some (Inl (settingsError (effects this) (Existing workspace project)
                ''Configured branch does not match local branch; check build settings on ''),
              tr1))
   \<and> ((localRepo = None
        \<or> (\<exists>r. localRepo = Some r \<and> src_provider_id source = repo_provider_id r)
          \<and> src_branch source = branch) \<longrightarrow>
      validateGitHubLink this (Existing workspace project) tr =
        Some (case getGitHubRepository (apiClient this) (ByProviderId (src_provider_id source))
                     tr1 of
                Inl e \<Rightarrow> Inl e
              | Inr None \<Rightarrow> Inl (settingsError (effects this) (Existing workspace project)
                           ''Cannot access configured repository; check build settings on '')
              | Inr (Some r) \<Rightarrow> Inr (),
              tr1 @ [GetGitHubRepository (ByProviderId (src_provider_id source))]))"
  using assms
  by (auto simp add: validateGitHubLink_def validateGitHubLink_configured_def call_def
      split: sum.splits option.splits)

lemma settingsError_Existing:
  "settingsError eff (Existing workspace project) msg =
     plainCliError (msg @ settingsPage eff workspace project)"
  by (simp add: settingsError_def settingsUrl_def settingsPage_def)

text \<open>
  C9. When the project records a source link and the lookup of the local repository by
  owner and name answers \<^verbatim>\<open>null\<close>, neither the provider id nor the branch is compared: the
  method asks for the recorded repository by its provider id and its outcome is decided
  by that answer alone (success for a repository, the "Cannot access configured
  repository" error for \<^verbatim>\<open>null\<close>, the error of the call when the call itself fails).
\<close>

theorem validateGitHubLink_without_local_repository:
  assumes "truthy (build_environment_id project)"
    and "localRepository this tr = (Inr (ownerName, repoName, branch, None), tr1)"
    and "project_source project = Some source"
  shows
  "validateGitHubLink this (Existing workspace project) tr =
     Some (case getGitHubRepository (apiClient this) (ByProviderId (src_provider_id source)) tr1 of
             Inl e \<Rightarrow> Inl e
           | Inr None \<Rightarrow>
               Inl (plainCliError (''Cannot access configured repository; check build settings on ''
                                   @ settingsPage (effects this) workspace project))
           | Inr (Some remoteAuthedRepo) \<Rightarrow> Inr (),
           tr1 @ [GetGitHubRepository (ByProviderId (src_provider_id source))])"
  using validateGitHubLink_configured_cases[OF assms, of workspace]
  by (simp add: settingsError_Existing split: sum.splits option.splits)

theorem validateGitHubLink_without_local_repository_witness:
  "validateGitHubLink (gitDeployer (''feature-x'' @ [CHR 0x0A]) None (Some testRepo))
     (Existing testWorkspace (linkedProject ''99'' ''main'')) [] =
     Some (Inr (),
           [ExistsSync ''.git'', Exec ''git remote -v'', Exec ''git rev-parse --abbrev-ref HEAD'',
            GetGitHubRepository (ByName ''acme'' ''my-app''),
            GetGitHubRepository (ByProviderId ''99'')])
   \<and> validateGitHubLink (gitDeployer (''main'' @ [CHR 0x0A]) None None)
     (Existing testWorkspace (linkedProject ''42'' (''main'' @ [CHR 0x0A]))) [] =
     Some (Inl (CliError (''Cannot access configured repository; check build settings on ''
                          @ ''https://observablehq.com/projects/@acme/my-app/settings'')
                  None None None),
           [ExistsSync ''.git'', Exec ''git remote -v'', Exec ''git rev-parse --abbrev-ref HEAD'',
            GetGitHubRepository (ByName ''acme'' ''my-app''),
            GetGitHubRepository (ByProviderId ''42'')])"
  using validateGitHubLink_without_local_repository
          [of "linkedProject ''99'' ''main''"
              "gitDeployer (''feature-x'' @ [CHR 0x0A]) None (Some testRepo)" "[]"
              "''acme''" "''my-app''" "''feature-x'' @ [CHR 0x0A]" _ _ testWorkspace]
        validateGitHubLink_without_local_repository
          [of "linkedProject ''42'' (''main'' @ [CHR 0x0A])"
              "gitDeployer (''main'' @ [CHR 0x0A]) None None" "[]"
              "''acme''" "''my-app''" "''main'' @ [CHR 0x0A]" _ _ testWorkspace]
  by (simp add: localRepository_gitDeployer gitDeployer_fields linkedProject_fields
        settingsPage_def testWorkspace_def plainCliError_def)

text \<open>
  C1. The comments of \<^verbatim>\<open>validateGitHubLink\<close> say that it throws an error "if local and
  remote GitHub repos don't match" and that, for a project with a recorded source, it checks
  that the source "matches the local repository and branch". At two inputs the code does
  otherwise. First, the lookup of the local repository answers \<^verbatim>\<open>null\<close>, the recorded branch
  is \<^verbatim>\<open>main\<close> and git prints \<^verbatim>\<open>feature-x\<close>: both comparisons are skipped and the method
  returns normally. Second, the recorded branch is \<^verbatim>\<open>main\<close> and so is the local branch: git
  prints the name followed by a newline, the text is compared as it was printed, and the
  method fails with the branch error.
\<close>

theorem validateGitHubLink_branch_unchecked:
  "validateGitHubLink (gitDeployer (''feature-x'' @ [CHR 0x0A]) None (Some testRepo))
     (Existing testWorkspace (linkedProject ''42'' ''main'')) [] =
     Some (Inr (),
           [ExistsSync ''.git'', Exec ''git remote -v'', Exec ''git rev-parse --abbrev-ref HEAD'',
            GetGitHubRepository (ByName ''acme'' ''my-app''),
            GetGitHubRepository (ByProviderId ''42'')])
   \<and> validateGitHubLink (gitDeployer (''main'' @ [CHR 0x0A]) (Some testRepo) (Some testRepo))
     (Existing testWorkspace (linkedProject ''42'' ''main'')) [] =
     Some (Inl (CliError (''Configured branch does not match local branch; check build settings on ''
                          @ ''https://observablehq.com/projects/@acme/my-app/settings'')
                  None None None),
           [ExistsSync ''.git'', Exec ''git remote -v'', Exec ''git rev-parse --abbrev-ref HEAD'',
            GetGitHubRepository (ByName ''acme'' ''my-app'')])"
  by (simp add: validateGitHubLink_def validateGitHubLink_configured_def
        localRepository_gitDeployer gitDeployer_fields linkedProject_fields call_def
        settingsError_Existing settingsPage_def testRepo_def testWorkspace_def plainCliError_def)

subsection \<open>Target resolution: the persisted config and the tag of the target\<close>

lemma calls_append [simp]: "calls P (tr @ tr') = calls P tr + calls P tr'"
  by (simp add: calls_def)

lemma calls_Nil [simp]: "calls P [] = 0"
  by (simp add: calls_def)

lemma calls_Cons [simp]: "calls P (e # tr) = (if P e then 1 else 0) + calls P tr"
  by (simp add: calls_def)

definition quiet :: "trace \<Rightarrow> trace \<Rightarrow> bool" where
  "quiet tr tr' = (calls isSetDeployConfig tr' = calls isSetDeployConfig tr
                   \<and> calls isPostProject tr' = calls isPostProject tr)"

lemma quiet_refl [simp]: "quiet tr tr"
  by (simp add: quiet_def)

lemma quiet_trans: "quiet tr tr1 \<Longrightarrow> quiet tr1 tr2 \<Longrightarrow> quiet tr tr2"
  by (simp add: quiet_def)

lemma fetch_calls:
  "getDeployTarget_fetch this dc tr = (r, tr') \<Longrightarrow> quiet tr tr'"
  by (auto simp add: quiet_def getDeployTarget_fetch_def call_def split: option.splits sum.splits if_splits)

lemma prompt_create_calls:
  "promptDeployTarget_create eff config w tr = (r, tr') \<Longrightarrow> quiet tr tr'"
  by (auto simp add: quiet_def promptDeployTarget_create_def call_def split: option.splits answer.splits)

lemma prompt_project_calls:
  "promptDeployTarget_project eff config api w tr = (r, tr') \<Longrightarrow> quiet tr tr'"
  by (auto simp add: promptDeployTarget_project_def call_def
       split: option.splits answer.splits sum.splits error.splits if_splits bool.splits
       dest!: prompt_create_calls) (simp_all add: quiet_def)

lemma prompt_calls:
  "promptDeployTarget eff config api user tr = (r, tr') \<Longrightarrow> quiet tr tr'"
  by (auto simp add: promptDeployTarget_def call_def
       split: list.splits answer.splits if_splits
       dest!: prompt_project_calls) (simp_all add: quiet_def)

lemma confirmContinue_calls:
  "confirmContinue eff tr = (r, tr') \<Longrightarrow> quiet tr tr'"
  by (auto simp add: quiet_def confirmContinue_def call_def split: answer.splits bool.splits)

lemma drift_calls:
  "getDeployTarget_drift this dc t tr = (r, tr') \<Longrightarrow> quiet tr tr'"
  by (auto simp add: getDeployTarget_drift_def split: DeployTargetInfo.splits if_splits
       dest: confirmContinue_calls)

lemma continuous_calls:
  "getDeployTarget_continuous this dc tr = (r, tr') \<Longrightarrow> quiet tr tr'"
  by (auto simp add: quiet_def getDeployTarget_continuous_def call_def split: option.splits answer.splits)

lemma create_Existing:
  "getDeployTarget_create this t tr = (Inr created, tr') \<Longrightarrow>
     (\<exists>w p. created = Existing w p) \<and> calls isSetDeployConfig tr' = calls isSetDeployConfig tr
     \<and> calls isPostProject tr' = calls isPostProject tr + (case t of Create w s ti a \<Rightarrow> 1 | Existing w p \<Rightarrow> 0)"
  by (auto simp add: getDeployTarget_create_def call_def split: DeployTargetInfo.splits sum.splits)

lemma save_calls:
  "getDeployTarget_save this t enable tr = (Inr (cfg, target), tr') \<Longrightarrow>
     target = t \<and> calls isSetDeployConfig tr' = Suc (calls isSetDeployConfig tr)
     \<and> calls isPostProject tr' = calls isPostProject tr"
  by (auto simp add: getDeployTarget_save_def writeDeployConfig_def call_def Let_def
       split: DeployTargetInfo.splits sum.splits)

lemma getDeployTarget_steps:
  assumes "getDeployTarget this dc tr = (Inr (cfg, target), tr')"
  shows "(\<exists>w p. target = Existing w p)
     \<and> calls isSetDeployConfig tr' = Suc (calls isSetDeployConfig tr)
     \<and> calls isPostProject tr' \<le> Suc (calls isPostProject tr)"
proof -
  from assms obtain fetched tr1 where f: "getDeployTarget_fetch this dc tr = (Inr fetched, tr1)"
    by (auto simp add: getDeployTarget_def split: prod.splits sum.splits)
  from assms f obtain t tr2 where
    p: "(case fetched of Some t \<Rightarrow> (Inr t, tr1)
         | None \<Rightarrow> promptDeployTarget (effects this) (opt_config (deployOptions this))
                     (apiClient this) (currentUser this) tr1) = (Inr t, tr2)"
    by (auto simp add: getDeployTarget_def split: prod.splits sum.splits)
  from assms f p obtain tr3 where d: "getDeployTarget_drift this dc t tr2 = (Inr (), tr3)"
    by (auto simp add: getDeployTarget_def split: prod.splits sum.splits)
  from assms f p d obtain created tr4 where c: "getDeployTarget_create this t tr3 = (Inr created, tr4)"
    by (auto simp add: getDeployTarget_def split: prod.splits sum.splits)
  from assms f p d c obtain enable tr5 where
    e: "getDeployTarget_continuous this dc tr4 = (Inr enable, tr5)"
    by (auto simp add: getDeployTarget_def split: prod.splits sum.splits)
  from assms f p d c e have s: "getDeployTarget_save this created enable tr5 = (Inr (cfg, target), tr')"
    by (auto simp add: getDeployTarget_def split: prod.splits sum.splits)
  have "quiet tr1 tr2"
    using p by (cases fetched) (auto dest: prompt_calls)
  then have "quiet tr tr3"
    using fetch_calls[OF f] drift_calls[OF d] by (simp add: quiet_def)
  then have w: "calls isSetDeployConfig tr5 = calls isSetDeployConfig tr"
    and po: "calls isPostProject tr5 \<le> Suc (calls isPostProject tr)"
    using create_Existing[OF c] continuous_calls[OF e] by (auto simp add: quiet_def split: DeployTargetInfo.splits)
  show ?thesis
    using save_calls[OF s] create_Existing[OF c] w po by auto
qed


lemma searchWorkspaces_calls:
  "searchWorkspaces this dc ws tr = (Inr dc', tr') \<Longrightarrow>
     calls isSetDeployConfig tr' =
       calls isSetDeployConfig tr + (if searchFinds this dc ws tr then 1 else 0)"
proof (induction ws arbitrary: tr)
  case Nil
  then show ?case by simp
next
  case (Cons w ws)
  then show ?case
    by (auto simp add: call_def writeDeployConfig_def Let_def split: sum.splits option.splits)
qed

lemma getUpdatedDeployConfig_calls:
  "getUpdatedDeployConfig this tr = (Inr dc, tr') \<Longrightarrow>
     calls isSetDeployConfig tr' =
       calls isSetDeployConfig tr + (if backfills this tr then 1 else 0)"
  by (auto simp add: getUpdatedDeployConfig_def backfills_def call_def
        split: sum.splits if_splits dest!: searchWorkspaces_calls)

lemma resolve_calls:
  assumes "resolveDeployTarget this tr = (Inr (cfg, target), tr')"
  shows "calls isSetDeployConfig tr' =
       calls isSetDeployConfig tr + (if backfills this tr then 2 else 1)"
proof -
  from assms obtain dc tr1 where u: "getUpdatedDeployConfig this tr = (Inr dc, tr1)"
    and g: "getDeployTarget this dc tr1 = (Inr (cfg, target), tr')"
    by (auto simp add: resolveDeployTarget_def split: prod.splits sum.splits)
  show ?thesis
    using getUpdatedDeployConfig_calls[OF u] getDeployTarget_steps[OF g] by simp
qed

lemma legacyDeployer_run:
  "resolveDeployTarget legacyDeployer [] =
     (Inr (\<lparr>projectId = Some ''p1'', projectSlug = Some ''my-app'', workspaceLogin = Some ''acme'',
            continuousDeployment = Some False\<rparr>,
           Existing testWorkspace testProject),
      [GetDeployConfig ''src'' None, GetWorkspaceProjects ''acme'',
       SetDeployConfig ''src'' None
         \<lparr>projectId = Some ''p1'', projectSlug = Some ''my-app'', workspaceLogin = Some ''acme'',
          continuousDeployment = Some False\<rparr>,
       GetProject ''acme'' ''my-app'',
       SetDeployConfig ''src'' None
         \<lparr>projectId = Some ''p1'', projectSlug = Some ''my-app'', workspaceLogin = Some ''acme'',
          continuousDeployment = Some False\<rparr>])"
  by (simp add: resolveDeployTarget_def getUpdatedDeployConfig_def getDeployTarget_def
      getDeployTarget_fetch_def getDeployTarget_drift_def getDeployTarget_create_def
      getDeployTarget_continuous_def getDeployTarget_save_def writeDeployConfig_def call_def
      legacyDeployer_def legacyConfig_def testDeployer_def testEffects_def testApi_def
      testOptions_def testProject_def testWorkspace_def Let_def)

lemma creatingDeployer_getDeployTarget:
  "getDeployTarget creatingDeployer
     \<lparr>projectId = None, projectSlug = None, workspaceLogin = None, continuousDeployment = None\<rparr>
     tr =
     (Inr (\<lparr>projectId = Some ''p1'', projectSlug = Some ''my-app'', workspaceLogin = Some ''acme'',
            continuousDeployment = Some False\<rparr>,
           Existing testWorkspace testProject),
      tr @ [GetWorkspaceProjects ''acme'',
       Confirm \<lparr>cf_message = ''No apps found. Do you want to create a new app?'',
                cf_initialValue = None\<rparr>,
       TextPrompt ''What slug do you want to use?'',
       SelectPrompt ''Who is allowed to access your app?'',
       PostProject ''my-app'' ''App'' ''w1'' ''private'',
       Confirm \<lparr>cf_message = ''Do you want to enable continuous deployment?'',
                cf_initialValue = None\<rparr>,
       SetDeployConfig ''src'' None
         \<lparr>projectId = Some ''p1'', projectSlug = Some ''my-app'', workspaceLogin = Some ''acme'',
          continuousDeployment = Some False\<rparr>])"
  by (simp add: getDeployTarget_def
      getDeployTarget_fetch_def getDeployTarget_drift_def getDeployTarget_create_def
      getDeployTarget_continuous_def getDeployTarget_save_def writeDeployConfig_def call_def
      promptDeployTarget_def promptDeployTarget_project_def promptDeployTarget_create_def
      creatingDeployer_def testDeployer_def testEffects_def testApi_def
      testOptions_def testProject_def testWorkspace_def Let_def)

lemma creatingDeployer_run:
  "resolveDeployTarget creatingDeployer [] =
     (Inr (\<lparr>projectId = Some ''p1'', projectSlug = Some ''my-app'', workspaceLogin = Some ''acme'',
            continuousDeployment = Some False\<rparr>,
           Existing testWorkspace testProject),
      [GetDeployConfig ''src'' None, GetWorkspaceProjects ''acme'',
       Confirm \<lparr>cf_message = ''No apps found. Do you want to create a new app?'',
                cf_initialValue = None\<rparr>,
       TextPrompt ''What slug do you want to use?'',
       SelectPrompt ''Who is allowed to access your app?'',
       PostProject ''my-app'' ''App'' ''w1'' ''private'',
       Confirm \<lparr>cf_message = ''Do you want to enable continuous deployment?'',
                cf_initialValue = None\<rparr>,
       SetDeployConfig ''src'' None
         \<lparr>projectId = Some ''p1'', projectSlug = Some ''my-app'', workspaceLogin = Some ''acme'',
          continuousDeployment = Some False\<rparr>])"
proof -
  have "getUpdatedDeployConfig creatingDeployer [] =
     (Inr \<lparr>projectId = None, projectSlug = None, workspaceLogin = None,
           continuousDeployment = None\<rparr>, [GetDeployConfig ''src'' None])"
    by (simp add: getUpdatedDeployConfig_def call_def creatingDeployer_def testDeployer_def
          testEffects_def testOptions_def)
  then show ?thesis
    by (simp add: resolveDeployTarget_def creatingDeployer_getDeployTarget)
qed

lemma backfills_examples:
  "backfills legacyDeployer []" "\<not> backfills creatingDeployer []"
  by (simp_all add: backfills_def legacyDeployer_def legacyConfig_def creatingDeployer_def
        testDeployer_def testEffects_def testApi_def testOptions_def testProject_def
        testWorkspace_def)

text \<open>
  C2, as the code has it. \<^verbatim>\<open>getDeployTarget\<close> invokes \<^verbatim>\<open>setDeployConfig\<close> exactly once on
  every successful return, also when it has created the project. A whole successful
  resolution (\<^verbatim>\<open>getDeployTarget(await getUpdatedDeployConfig())\<close>) invokes it once, except on
  the legacy path where the loaded config has a project id but no slug or login and the
  search finds the project: there \<^verbatim>\<open>getUpdatedDeployConfig\<close> has written the backfilled
  config already and the resolution invokes it twice.
\<close>

theorem setDeployConfig_calls_per_resolution:
  "(getDeployTarget this deployConfig tr0 = (Inr r0, tr1) \<longrightarrow>
      calls isSetDeployConfig tr1 = Suc (calls isSetDeployConfig tr0))
   \<and> (resolveDeployTarget this tr = (Inr r, tr') \<longrightarrow>
      calls isSetDeployConfig tr' =
        calls isSetDeployConfig tr + (if backfills this tr then 2 else 1))"
  using getDeployTarget_steps[of this deployConfig tr0 "fst r0" "snd r0" tr1]
        resolve_calls[of this tr "fst r" "snd r" tr']
  by simp

theorem setDeployConfig_calls_per_resolution_witness:
  "calls isSetDeployConfig (snd (resolveDeployTarget creatingDeployer [])) = 1
   \<and> calls isSetDeployConfig (snd (resolveDeployTarget legacyDeployer [])) = 2
   \<and> calls isSetDeployConfig
        (snd (getDeployTarget creatingDeployer
               \<lparr>projectId = None, projectSlug = None, workspaceLogin = None,
                continuousDeployment = None\<rparr> [])) = 1"
  using setDeployConfig_calls_per_resolution
          [of creatingDeployer
              "\<lparr>projectId = None, projectSlug = None, workspaceLogin = None,
                continuousDeployment = None\<rparr>"
              "[]"
              "(\<lparr>projectId = Some ''p1'', projectSlug = Some ''my-app'',
                 workspaceLogin = Some ''acme'', continuousDeployment = Some False\<rparr>,
                Existing testWorkspace testProject)"
              "snd (getDeployTarget creatingDeployer
                      \<lparr>projectId = None, projectSlug = None, workspaceLogin = None,
                       continuousDeployment = None\<rparr> [])"
              "[]"
              "(\<lparr>projectId = Some ''p1'', projectSlug = Some ''my-app'',
                 workspaceLogin = Some ''acme'', continuousDeployment = Some False\<rparr>,
                Existing testWorkspace testProject)"
              "snd (resolveDeployTarget creatingDeployer [])"]
        setDeployConfig_calls_per_resolution
          [of legacyDeployer legacyConfig "[]"
              "(legacyConfig, Existing testWorkspace testProject)" "[]" "[]"
              "(\<lparr>projectId = Some ''p1'', projectSlug = Some ''my-app'',
                 workspaceLogin = Some ''acme'', continuousDeployment = Some False\<rparr>,
                Existing testWorkspace testProject)"
              "snd (resolveDeployTarget legacyDeployer [])"]
  by (simp add: creatingDeployer_run legacyDeployer_run backfills_examples
        creatingDeployer_getDeployTarget[of "[]", simplified])

text \<open>
  C2 as the spec states it fails on the legacy path: the resolution succeeds and
  \<^verbatim>\<open>setDeployConfig\<close> is invoked twice, once by the backfill and once by \<^verbatim>\<open>getDeployTarget\<close>.
\<close>

theorem legacy_resolution_writes_twice:
  "fst (resolveDeployTarget legacyDeployer []) =
     Inr (\<lparr>projectId = Some ''p1'', projectSlug = Some ''my-app'', workspaceLogin = Some ''acme'',
           continuousDeployment = Some False\<rparr>,
          Existing testWorkspace testProject)
   \<and> filter isSetDeployConfig (snd (resolveDeployTarget legacyDeployer [])) =
       [SetDeployConfig ''src'' None
          \<lparr>projectId = Some ''p1'', projectSlug = Some ''my-app'', workspaceLogin = Some ''acme'',
           continuousDeployment = Some False\<rparr>,
        SetDeployConfig ''src'' None
          \<lparr>projectId = Some ''p1'', projectSlug = Some ''my-app'', workspaceLogin = Some ''acme'',
           continuousDeployment = Some False\<rparr>]"
  by (simp add: legacyDeployer_run)

text \<open>
  C8. An operation that reads the project of the target (\<^verbatim>\<open>settingsUrl\<close>, \<^verbatim>\<open>cloudBuild\<close>,
  \<^verbatim>\<open>validateGitHubLink\<close>, \<^verbatim>\<open>createNewDeploy\<close>) fails its check on a \<open>Create\<close> value, with no
  call to the outside. In \<^verbatim>\<open>getDeployTarget\<close> a \<open>Create\<close> value becomes \<open>Existing\<close> right after
  the project-creation call has succeeded (a failed call ends the resolution), an \<open>Existing\<close>
  value stays as it is, and every successful resolution returns an \<open>Existing\<close> target after
  at most one project-creation call.
\<close>

theorem deployTarget_tag:
  "settingsUrl eff (Create w s t a) = Inl (JsError ''Incorrect deploy target state'')
   \<and> cloudBuild this (Create w s t a) tr = Some (Inl (JsError ''Incorrect deploy target state''), tr)
   \<and> validateGitHubLink this (Create w s t a) tr =
       Some (Inl (JsError ''Incorrect deploy target state''), tr)
   \<and> createNewDeploy this (Create w s t a) tr = (Inl (JsError ''Incorrect deployTarget state''), tr)
   \<and> getDeployTarget_create this (Create w s t a) tr =
       (case postProject (apiClient this) s t (ws_id w) a tr of
          Inr project \<Rightarrow> (Inr (Existing w project), tr @ [PostProject s t (ws_id w) a])
        | Inl e \<Rightarrow> (Inl (CliError ''Error during deploy'' (Some e) (Some False) None),
                    tr @ [PostProject s t (ws_id w) a]))
   \<and> getDeployTarget_create this (Existing w p) tr = (Inr (Existing w p), tr)
   \<and> (getDeployTarget this deployConfig tr = (Inr (cfg, target), tr') \<longrightarrow>
        (\<exists>w' p'. target = Existing w' p')
        \<and> calls isPostProject tr' \<le> Suc (calls isPostProject tr))"
  using getDeployTarget_steps[of this deployConfig tr cfg target tr']
  by (auto simp add: settingsUrl_def cloudBuild_def validateGitHubLink_def createNewDeploy_def
        getDeployTarget_create_def call_def split: sum.splits)

theorem deployTarget_tag_witness:
  "getDeployTarget_create creatingDeployer (Create testWorkspace ''my-app'' ''App'' ''private'') [] =
     (Inr (Existing testWorkspace testProject), [PostProject ''my-app'' ''App'' ''w1'' ''private''])
   \<and> snd (projr (fst (getDeployTarget creatingDeployer
               \<lparr>projectId = None, projectSlug = None, workspaceLogin = None,
                continuousDeployment = None\<rparr> []))) = Existing testWorkspace testProject
   \<and> calls isPostProject (snd (getDeployTarget creatingDeployer
               \<lparr>projectId = None, projectSlug = None, workspaceLogin = None,
                continuousDeployment = None\<rparr> [])) = 1"
  using deployTarget_tag
          [of testEffects testWorkspace "''my-app''" "''App''" "''private''" creatingDeployer "[]"
              testProject
              "\<lparr>projectId = None, projectSlug = None, workspaceLogin = None,
                continuousDeployment = None\<rparr>"
              "\<lparr>projectId = Some ''p1'', projectSlug = Some ''my-app'',
                 workspaceLogin = Some ''acme'', continuousDeployment = Some False\<rparr>"
              "Existing testWorkspace testProject"
              "snd (getDeployTarget creatingDeployer
               \<lparr>projectId = None, projectSlug = None, workspaceLogin = None,
                continuousDeployment = None\<rparr> [])"]
  by (simp add: creatingDeployer_getDeployTarget[of "[]", simplified])
     (simp add: creatingDeployer_def testDeployer_def testApi_def testWorkspace_def)

subsection \<open>\<^verbatim>\<open>getUpdatedDeployConfig\<close>: invalid persisted values\<close>

text \<open>
  C7, as the code has it. When the loaded config has a workspace login that is not empty
  and does not match \<^verbatim>\<open>/^@?[a-z0-9-]+$/\<close>, \<^verbatim>\<open>getUpdatedDeployConfig\<close> fails with the "invalid
  workspace login" error; otherwise, when it has a project slug that is not empty and does
  not match \<^verbatim>\<open>/^[a-z0-9-]+$/\<close>, it fails with the "invalid projectSlug" error. Either way it
  has made no call after loading the config: nothing is repaired or written. (A missing or
  empty login or slug is not an error.)
\<close>

theorem getUpdatedDeployConfig_invalid:
  assumes "getDeployConfig (effects this) (cfg_root (opt_config (deployOptions this)))
             (opt_deployConfigPath (deployOptions this)) tr = Inr deployConfig"
  shows
  "(\<forall>login. workspaceLogin deployConfig = Some login \<and> login \<noteq> [] \<and> \<not> matchLogin login \<longrightarrow>
      getUpdatedDeployConfig this tr =
        (Inl (plainCliError (''Found invalid workspace login in '' @ deployJsonPath this @ '': ''
                             @ login @ ''.'')),
         tr @ [GetDeployConfig (cfg_root (opt_config (deployOptions this)))
                 (opt_deployConfigPath (deployOptions this))]))
   \<and> (\<forall>slug. projectSlug deployConfig = Some slug \<and> slug \<noteq> [] \<and> \<not> matchSlug slug
            \<and> (\<forall>login. workspaceLogin deployConfig = Some login \<longrightarrow>
                          login = [] \<or> matchLogin login) \<longrightarrow>
      getUpdatedDeployConfig this tr =
        (Inl (plainCliError (''Found invalid `projectSlug` in '' @ deployJsonPath this @ '': ''
                             @ slug @ ''.'')),
         tr @ [GetDeployConfig (cfg_root (opt_config (deployOptions this)))
                 (opt_deployConfigPath (deployOptions this))]))"
  using assms
  by (auto simp add: getUpdatedDeployConfig_def call_def split: option.splits)

theorem getUpdatedDeployConfig_invalid_witness:
  "getUpdatedDeployConfig
     (testDeployer\<lparr>effects := testEffects\<lparr>getDeployConfig :=
        (\<lambda>dir path tr. Inr \<lparr>projectId = None, projectSlug = Some ''My App'',
                             workspaceLogin = Some ''@acme'', continuousDeployment = None\<rparr>)\<rparr>\<rparr>) [] =
     (Inl (CliError ''Found invalid `projectSlug` in src/.observablehq/deploy.json: My App.''
             None None None),
      [GetDeployConfig ''src'' None])
   \<and> getUpdatedDeployConfig
     (testDeployer\<lparr>effects := testEffects\<lparr>getDeployConfig :=
        (\<lambda>dir path tr. Inr \<lparr>projectId = None, projectSlug = Some ''my-app'',
                             workspaceLogin = Some ''@Acme'', continuousDeployment = None\<rparr>)\<rparr>\<rparr>) [] =
     (Inl (CliError ''Found invalid workspace login in src/.observablehq/deploy.json: @Acme.''
             None None None),
      [GetDeployConfig ''src'' None])"
  using getUpdatedDeployConfig_invalid
          [of "testDeployer\<lparr>effects := testEffects\<lparr>getDeployConfig :=
                 (\<lambda>dir path tr. Inr \<lparr>projectId = None, projectSlug = Some ''My App'',
                                      workspaceLogin = Some ''@acme'',
                                      continuousDeployment = None\<rparr>)\<rparr>\<rparr>"
              "[]"
              "\<lparr>projectId = None, projectSlug = Some ''My App'', workspaceLogin = Some ''@acme'',
                continuousDeployment = None\<rparr>"]
        getUpdatedDeployConfig_invalid
          [of "testDeployer\<lparr>effects := testEffects\<lparr>getDeployConfig :=
                 (\<lambda>dir path tr. Inr \<lparr>projectId = None, projectSlug = Some ''my-app'',
                                      workspaceLogin = Some ''@Acme'',
                                      continuousDeployment = None\<rparr>)\<rparr>\<rparr>"
              "[]"
              "\<lparr>projectId = None, projectSlug = Some ''my-app'', workspaceLogin = Some ''@Acme'',
                continuousDeployment = None\<rparr>"]
  by (simp add: testDeployer_def testEffects_def testOptions_def deployJsonPath_def
        matchLogin_def matchSlug_def isSlugChar_def plainCliError_def)

text \<open>
  C7 as the spec states it fails for an empty slug: the empty string does not match
  \<^verbatim>\<open>/^[a-z0-9-]+$/\<close>, and the method returns the config as it is.
\<close>

theorem getUpdatedDeployConfig_empty_slug_ignored:
  "\<not> matchSlug ''''
   \<and> getUpdatedDeployConfig
     (testDeployer\<lparr>effects := testEffects\<lparr>getDeployConfig :=
        (\<lambda>dir path tr. Inr \<lparr>projectId = None, projectSlug = Some '''',
                             workspaceLogin = Some ''acme'', continuousDeployment = None\<rparr>)\<rparr>\<rparr>) [] =
     (Inr \<lparr>projectId = None, projectSlug = Some '''', workspaceLogin = Some ''acme'',
           continuousDeployment = None\<rparr>,
      [GetDeployConfig ''src'' None])"
  by (simp add: getUpdatedDeployConfig_def call_def testDeployer_def testEffects_def
        testOptions_def matchLogin_def matchSlug_def isSlugChar_def)

subsection \<open>\<^verbatim>\<open>uploadFiles\<close>: the manifest answer and the rate limit\<close>

lemma settle_trace:
  assumes "\<And>x i s tr. snd (worker x i s tr) = tr @ g x"
  shows "snd (settle xs worker i s tr) = tr @ concat (map g xs)"
proof (induction xs arbitrary: i s tr)
  case Nil
  show ?case by simp
next
  case (Cons x xs)
  obtain e1 s1 tr1 where w: "worker x i s tr = ((e1, s1), tr1)"
    by (cases "worker x i s tr") auto
  have "tr1 = tr @ g x"
    using assms[of x i s tr] w by simp
  then show ?case
    using Cons.IH[of "Suc i" s1 tr1] w by simp
qed

lemma runAll_started:
  assumes "\<And>x i s tr. snd (worker x i s tr) = tr @ g x"
  shows "\<exists>m. m \<le> length xs
           \<and> snd (runAllWithConcurrencyLimit xs worker mc launched i s tr)
             = tr @ concat (map g (take m xs))
           \<and> (fst (fst (runAllWithConcurrencyLimit xs worker mc launched i s tr)) = None
                \<longrightarrow> m = length xs)"
proof (induction xs arbitrary: i s tr)
  case Nil
  show ?case by simp
next
  case (Cons x xs)
  obtain e1 s1 tr1 where w: "worker x i s tr = ((e1, s1), tr1)"
    by (cases "worker x i s tr") auto
  have t1: "tr1 = tr @ g x"
    using assms[of x i s tr] w by simp
  show ?case
  proof (cases e1)
    case None
    have r: "runAllWithConcurrencyLimit (x # xs) worker mc launched i s tr =
             runAllWithConcurrencyLimit xs worker mc launched (Suc i) s1 tr1"
      using w None by simp
    from Cons.IH[of "Suc i" s1 tr1] obtain m where m1: "m \<le> length xs"
      and m2: "snd (runAllWithConcurrencyLimit xs worker mc launched (Suc i) s1 tr1)
         = tr1 @ concat (map g (take m xs))"
      and m3: "fst (fst (runAllWithConcurrencyLimit xs worker mc launched (Suc i) s1 tr1)) = None
         \<longrightarrow> m = length xs"
      by (elim exE conjE)
    have "Suc m \<le> length (x # xs)
          \<and> snd (runAllWithConcurrencyLimit (x # xs) worker mc launched i s tr)
                   = tr @ concat (map g (take (Suc m) (x # xs)))
          \<and> (fst (fst (runAllWithConcurrencyLimit (x # xs) worker mc launched i s tr)) = None
                   \<longrightarrow> Suc m = length (x # xs))"
      unfolding r using m1 m2 m3 t1 by simp
    then show ?thesis by (rule exI)
  next
    case (Some e)
    let ?k = "launched mc tr1"
    obtain s2 tr2 where st: "settle (take ?k xs) worker (Suc i) s1 tr1 = (s2, tr2)"
      by (cases "settle (take ?k xs) worker (Suc i) s1 tr1") auto
    have "snd (settle (take ?k xs) worker (Suc i) s1 tr1) = tr1 @ concat (map g (take ?k xs))"
      by (rule settle_trace) (rule assms)
    then have t2: "tr2 = tr @ g x @ concat (map g (take ?k xs))"
      using st t1 by simp
    have r: "runAllWithConcurrencyLimit (x # xs) worker mc launched i s tr = ((Some e, s2), tr2)"
      using w Some st by simp
    have "Suc (min ?k (length xs)) \<le> length (x # xs)
          \<and> snd (runAllWithConcurrencyLimit (x # xs) worker mc launched i s tr)
                   = tr @ concat (map g (take (Suc (min ?k (length xs))) (x # xs)))
          \<and> (fst (fst (runAllWithConcurrencyLimit (x # xs) worker mc launched i s tr)) = None
                   \<longrightarrow> Suc (min ?k (length xs)) = length (x # xs))"
      unfolding r t2 by (cases "?k \<le> length xs") (simp_all add: min_def)
    then show ?thesis by (rule exI)
  qed
qed

lemma settle_preserves:
  assumes "\<And>x i s tr. f (snd (worker x i s tr)) = f tr"
  shows "f (snd (settle xs worker i s tr)) = f tr"
proof (induction xs arbitrary: i s tr)
  case Nil
  show ?case by simp
next
  case (Cons x xs)
  obtain e1 s1 tr1 where w: "worker x i s tr = ((e1, s1), tr1)"
    by (cases "worker x i s tr") auto
  have "f tr1 = f tr"
    using assms[of x i s tr] w by simp
  then show ?case
    using Cons.IH[of "Suc i" s1 tr1] w by simp
qed

lemma runAll_preserves:
  assumes "\<And>x i s tr. f (snd (worker x i s tr)) = f tr"
  shows "f (snd (runAllWithConcurrencyLimit xs worker mc launched i s tr)) = f tr"
proof (induction xs arbitrary: i s tr)
  case Nil
  show ?case by simp
next
  case (Cons x xs)
  obtain e1 s1 tr1 where w: "worker x i s tr = ((e1, s1), tr1)"
    by (cases "worker x i s tr") auto
  have t1: "f tr1 = f tr"
    using assms[of x i s tr] w by simp
  show ?case
  proof (cases e1)
    case None
    then show ?thesis
      using Cons.IH[of "Suc i" s1 tr1] w t1 by simp
  next
    case (Some e)
    let ?ys = "take (launched mc tr1) xs"
    obtain s2 tr2 where st: "settle ?ys worker (Suc i) s1 tr1 = (s2, tr2)"
      by (cases "settle ?ys worker (Suc i) s1 tr1") auto
    have "f (snd (settle ?ys worker (Suc i) s1 tr1)) = f tr1"
      by (rule settle_preserves) (rule assms)
    then show ?thesis
      using w Some t1 st by simp
  qed
qed

lemma runAll_all_succeed:
  assumes "\<And>x i s tr. fst (fst (worker x i s tr)) = None"
  shows "fst (fst (runAllWithConcurrencyLimit xs worker mc launched i s tr)) = None"
proof (induction xs arbitrary: i s tr)
  case Nil
  show ?case by simp
next
  case (Cons x xs)
  obtain e1 s1 tr1 where w: "worker x i s tr = ((e1, s1), tr1)"
    by (cases "worker x i s tr") auto
  have "e1 = None"
    using assms[of x i s tr] w by simp
  then show ?case
    using Cons.IH[of "Suc i" s1 tr1] w by simp
qed

lemma uploadWorker_trace:
  "snd (uploadWorker this deployId filesToUpload path i u tr) =
     tr @ (if 300 < length filesToUpload then [RateLimiterWait] else [])
        @ [PostDeployFile deployId
             (pathJoin (effects this) [cfg_output (opt_config (deployOptions this)), path]) path]"
  by (simp add: uploadWorker_def waitForRateLimit_def call_def Let_def split: sum.splits)

lemma hashWorker_no_upload:
  "filter isPostDeployFile (snd (hashWorker this path i m tr)) = filter isPostDeployFile tr"
  by (simp add: hashWorker_def call_def Let_def split: sum.splits)

lemma hashWorker_no_wait:
  "filter isRateLimiterWait (snd (hashWorker this path i m tr)) = filter isRateLimiterWait tr"
  by (simp add: hashWorker_def call_def Let_def split: sum.splits)



lemma uploadFiles_started:
  assumes "runAllWithConcurrencyLimit buildFilePaths (hashWorker this) None
             (launchedAfterFailure (effects this)) 0 [] tr = ((None, manifestFileInfo), tr1)"
    and "postDeployManifest (apiClient this) deployId manifestFileInfo tr1 = Inr instructions"
    and "\<not> manifestRejected instructions"
  shows "\<exists>m. m \<le> length (filesToUploadOf instructions)
     \<and> snd (uploadFiles this deployId buildFilePaths tr) =
         (tr1 @ [PostDeployManifest deployId manifestFileInfo])
         @ concat (map (\<lambda>path. (if 300 < length (filesToUploadOf instructions)
                                  then [RateLimiterWait] else [])
                               @ [PostDeployFile deployId
                                    (pathJoin (effects this)
                                       [cfg_output (opt_config (deployOptions this)), path]) path])
                    (take m (filesToUploadOf instructions)))
     \<and> (fst (uploadFiles this deployId buildFilePaths tr) = Inr ()
          \<longrightarrow> m = length (filesToUploadOf instructions))"
proof -
  let ?run = "runAllWithConcurrencyLimit (filesToUploadOf instructions)
                (uploadWorker this deployId (filesToUploadOf instructions))
                (opt_maxConcurrency (deployOptions this))
                (launchedAfterFailure (effects this)) 0 ()
                (tr1 @ [PostDeployManifest deployId manifestFileInfo])"
  let ?F = "\<lambda>path. (if 300 < length (filesToUploadOf instructions)
                        then [RateLimiterWait] else [])
                     @ [PostDeployFile deployId
                          (pathJoin (effects this)
                             [cfg_output (opt_config (deployOptions this)), path]) path]"
  have u: "uploadFiles this deployId buildFilePaths tr =
             (case ?run of ((Some e, u), tr3) \<Rightarrow> (Inl e, tr3)
                         | ((None, u), tr3) \<Rightarrow> (Inr (), tr3))"
    using assms by (simp add: uploadFiles_def call_def)
  obtain eo u' tr3 where run: "?run = ((eo, u'), tr3)"
    by (cases ?run) auto
  have s: "snd (uploadFiles this deployId buildFilePaths tr) = tr3"
    unfolding u run by (cases eo) simp_all
  have f: "fst (uploadFiles this deployId buildFilePaths tr) = Inr () \<longrightarrow> eo = None"
    unfolding u run by (cases eo) simp_all
  from runAll_started[of "uploadWorker this deployId (filesToUploadOf instructions)" ?F
         "filesToUploadOf instructions" "opt_maxConcurrency (deployOptions this)"
         "launchedAfterFailure (effects this)" 0 "()"
         "tr1 @ [PostDeployManifest deployId manifestFileInfo]", OF uploadWorker_trace]
  obtain m where m1: "m \<le> length (filesToUploadOf instructions)"
    and m2: "snd ?run = (tr1 @ [PostDeployManifest deployId manifestFileInfo])
                          @ concat (map ?F (take m (filesToUploadOf instructions)))"
    and m3: "fst (fst ?run) = None \<longrightarrow> m = length (filesToUploadOf instructions)"
    by (elim exE conjE)
  have m2': "tr3 = (tr1 @ [PostDeployManifest deployId manifestFileInfo])
                          @ concat (map ?F (take m (filesToUploadOf instructions)))"
    using m2 unfolding run by simp
  have m3': "eo = None \<longrightarrow> m = length (filesToUploadOf instructions)"
    using m3 unfolding run by simp
  have "m \<le> length (filesToUploadOf instructions)
     \<and> snd (uploadFiles this deployId buildFilePaths tr) =
         (tr1 @ [PostDeployManifest deployId manifestFileInfo])
         @ concat (map ?F (take m (filesToUploadOf instructions)))
     \<and> (fst (uploadFiles this deployId buildFilePaths tr) = Inr ()
          \<longrightarrow> m = length (filesToUploadOf instructions))"
    unfolding s using m1 m2' m3' f by blast
  then show ?thesis by (rule exI)
qed

lemma hashing_no_upload:
  assumes "runAllWithConcurrencyLimit buildFilePaths (hashWorker this) mc launched i m tr
             = ((eo, manifestFileInfo), tr1)"
  shows "filter isPostDeployFile tr1 = filter isPostDeployFile tr"
  using runAll_preserves[of "filter isPostDeployFile" "hashWorker this" buildFilePaths
          mc launched i m tr, OF hashWorker_no_upload] assms
  by simp

lemma hashing_no_wait:
  assumes "runAllWithConcurrencyLimit buildFilePaths (hashWorker this) mc launched i m tr
             = ((eo, manifestFileInfo), tr1)"
  shows "filter isRateLimiterWait tr1 = filter isRateLimiterWait tr"
  using runAll_preserves[of "filter isRateLimiterWait" "hashWorker this" buildFilePaths
          mc launched i m tr, OF hashWorker_no_wait] assms
  by simp

lemma posts_of_uploads:
  "filter isPostDeployFile
     (concat (map (\<lambda>path. (if c then [RateLimiterWait] else []) @ [PostDeployFile d (pj path) path])
                paths))
   = map (\<lambda>path. PostDeployFile d (pj path) path) paths"
  by (induction paths) simp_all

lemma waits_of_uploads:
  "filter isRateLimiterWait
     (concat (map (\<lambda>path. (if c then [RateLimiterWait] else []) @ [PostDeployFile d (pj path) path])
                paths))
   = (if c then replicate (length paths) RateLimiterWait else [])"
  by (induction paths) simp_all


lemma hash_uploadDeployer:
  "runAllWithConcurrencyLimit [''index.html'', ''style.css''] (hashWorker (uploadDeployer ins))
     None (launchedAfterFailure (effects (uploadDeployer ins))) 0 [] tr =
    ((None, testManifest),
     tr @ [FsStat ''dist/index.html'', ReadFile ''dist/index.html'',
           FsStat ''dist/style.css'', ReadFile ''dist/style.css''])"
  by (simp add: hashWorker_def call_def uploadDeployer_def testDeployer_def testEffects_def
        testOptions_def testManifest_def Let_def)

lemma uploadDeployer_fields:
  "postDeployManifest (apiClient (uploadDeployer ins)) deployId files tr = Inr ins"
  "postDeployFile (apiClient (uploadDeployer ins)) deployId fullPath path tr = Inr ()"
  "pathJoin (effects (uploadDeployer ins)) [a, b] = a @ CHR ''/'' # b"
  "cfg_output (opt_config (deployOptions (uploadDeployer ins))) = ''dist''"
  by (simp_all add: uploadDeployer_def testDeployer_def testApi_def testEffects_def testOptions_def)

lemma uploadDeployer_succeeds:
  assumes "\<not> manifestRejected ins"
  shows "fst (uploadFiles (uploadDeployer ins) deployId [''index.html'', ''style.css''] tr) = Inr ()"
proof -
  let ?run = "runAllWithConcurrencyLimit (filesToUploadOf ins)
                (uploadWorker (uploadDeployer ins) deployId (filesToUploadOf ins))
                (opt_maxConcurrency (deployOptions (uploadDeployer ins)))
                (launchedAfterFailure (effects (uploadDeployer ins))) 0 ()
                ((tr @ [FsStat ''dist/index.html'', ReadFile ''dist/index.html'',
                        FsStat ''dist/style.css'', ReadFile ''dist/style.css''])
                 @ [PostDeployManifest deployId testManifest])"
  have w: "fst (fst (uploadWorker (uploadDeployer ins) deployId (filesToUploadOf ins) x i s t)) = None"
    for x i s t
    by (simp add: uploadWorker_def waitForRateLimit_def call_def Let_def uploadDeployer_fields)
  have n: "fst (fst ?run) = None"
    by (rule runAll_all_succeed) (rule w)
  obtain u' tr3 where run: "?run = ((None, u'), tr3)"
    using n by (cases ?run) auto
  have "uploadFiles (uploadDeployer ins) deployId [''index.html'', ''style.css''] tr =
          (case ?run of ((Some e, u), tr3) \<Rightarrow> (Inl e, tr3)
                      | ((None, u), tr3) \<Rightarrow> (Inr (), tr3))"
    unfolding uploadFiles_def hash_uploadDeployer
    using assms by (simp add: call_def uploadDeployer_fields)
  then show ?thesis
    unfolding run by simp
qed




lemma count_posts_of_uploads:
  "calls isPostDeployFile
     (concat (map (\<lambda>path. (if c then [RateLimiterWait] else []) @ [PostDeployFile d (pj path) path])
                paths))
   = length paths"
  unfolding calls_def posts_of_uploads by simp

lemma count_waits_of_uploads:
  "calls isRateLimiterWait
     (concat (map (\<lambda>path. (if c then [RateLimiterWait] else []) @ [PostDeployFile d (pj path) path])
                paths))
   = (if c then length paths else 0)"
  unfolding calls_def waits_of_uploads by simp

lemma uploadFiles_counts:
  assumes "runAllWithConcurrencyLimit buildFilePaths (hashWorker this) None
             (launchedAfterFailure (effects this)) 0 [] tr = ((None, manifestFileInfo), tr1)"
    and "postDeployManifest (apiClient this) deployId manifestFileInfo tr1 = Inr instructions"
    and "\<not> manifestRejected instructions"
  shows "\<exists>m. m \<le> length (filesToUploadOf instructions)
     \<and> calls isPostDeployFile (snd (uploadFiles this deployId buildFilePaths tr))
           = calls isPostDeployFile tr + m
     \<and> calls isRateLimiterWait (snd (uploadFiles this deployId buildFilePaths tr))
           = calls isRateLimiterWait tr
             + (if 300 < length (filesToUploadOf instructions) then m else 0)
     \<and> (fst (uploadFiles this deployId buildFilePaths tr) = Inr ()
          \<longrightarrow> m = length (filesToUploadOf instructions))"
proof -
  let ?F = "\<lambda>path. (if 300 < length (filesToUploadOf instructions)
                        then [RateLimiterWait] else [])
                     @ [PostDeployFile deployId
                          (pathJoin (effects this)
                             [cfg_output (opt_config (deployOptions this)), path]) path]"
  have hp: "calls isPostDeployFile tr1 = calls isPostDeployFile tr"
    unfolding calls_def using assms(1) by (rule arg_cong[OF hashing_no_upload])
  have hw: "calls isRateLimiterWait tr1 = calls isRateLimiterWait tr"
    unfolding calls_def using assms(1) by (rule arg_cong[OF hashing_no_wait])
  from uploadFiles_started[OF assms]
  obtain m where m1: "m \<le> length (filesToUploadOf instructions)"
    and m2: "snd (uploadFiles this deployId buildFilePaths tr) =
               (tr1 @ [PostDeployManifest deployId manifestFileInfo])
               @ concat (map ?F (take m (filesToUploadOf instructions)))"
    and m3: "fst (uploadFiles this deployId buildFilePaths tr) = Inr ()
               \<longrightarrow> m = length (filesToUploadOf instructions)"
    by (elim exE conjE)
  have l: "length (take m (filesToUploadOf instructions)) = m"
    using m1 by simp
  have p: "calls isPostDeployFile (snd (uploadFiles this deployId buildFilePaths tr))
             = calls isPostDeployFile tr + m"
    unfolding m2 calls_append count_posts_of_uploads l hp by simp
  have w: "calls isRateLimiterWait (snd (uploadFiles this deployId buildFilePaths tr))
             = calls isRateLimiterWait tr
               + (if 300 < length (filesToUploadOf instructions) then m else 0)"
    unfolding m2 calls_append count_waits_of_uploads l hw by simp
  show ?thesis
  proof (rule exI[where x = m], intro conjI)
    show "m \<le> length (filesToUploadOf instructions)" by (rule m1)
    show "calls isPostDeployFile (snd (uploadFiles this deployId buildFilePaths tr))
             = calls isPostDeployFile tr + m" by (rule p)
    show "calls isRateLimiterWait (snd (uploadFiles this deployId buildFilePaths tr))
             = calls isRateLimiterWait tr
               + (if 300 < length (filesToUploadOf instructions) then m else 0)" by (rule w)
    show "fst (uploadFiles this deployId buildFilePaths tr) = Inr ()
               \<longrightarrow> m = length (filesToUploadOf instructions)" by (rule m3)
  qed
qed

text \<open>
  C4. Every single upload, as \<^verbatim>\<open>uploadFiles\<close> runs it, first waits on the rate limiter
  exactly when more than 300 files are to be uploaded, and then calls \<^verbatim>\<open>postDeployFile\<close>.
  So in an upload phase (the manifest hashed and accepted) that starts \<open>m\<close> of the uploads,
  whether they succeed or not, the rate limiter is waited on \<open>m\<close> times when more than 300
  files are to be uploaded and never otherwise; when \<^verbatim>\<open>uploadFiles\<close> returns normally,
  \<open>m\<close> is the number of files to upload.
\<close>

theorem rate_limit_above_300:
  "snd (uploadWorker this deployId filesToUpload path i u tr') =
     tr' @ (if 300 < length filesToUpload then [RateLimiterWait] else [])
         @ [PostDeployFile deployId
              (pathJoin (effects this) [cfg_output (opt_config (deployOptions this)), path]) path]
   \<and> (runAllWithConcurrencyLimit buildFilePaths (hashWorker this) None
             (launchedAfterFailure (effects this)) 0 [] tr = ((None, manifestFileInfo), tr1)
        \<and> postDeployManifest (apiClient this) deployId manifestFileInfo tr1 = Inr instructions
        \<and> \<not> manifestRejected instructions \<longrightarrow>
        (\<exists>m. m \<le> length (filesToUploadOf instructions)
           \<and> calls isPostDeployFile (snd (uploadFiles this deployId buildFilePaths tr))
                 = calls isPostDeployFile tr + m
           \<and> calls isRateLimiterWait (snd (uploadFiles this deployId buildFilePaths tr))
                 = calls isRateLimiterWait tr
                   + (if 300 < length (filesToUploadOf instructions) then m else 0)
           \<and> (fst (uploadFiles this deployId buildFilePaths tr) = Inr ()
                \<longrightarrow> m = length (filesToUploadOf instructions))))"
proof (rule conjI)
  show "snd (uploadWorker this deployId filesToUpload path i u tr') =
     tr' @ (if 300 < length filesToUpload then [RateLimiterWait] else [])
         @ [PostDeployFile deployId
              (pathJoin (effects this) [cfg_output (opt_config (deployOptions this)), path]) path]"
    by (rule uploadWorker_trace)
next
  show "runAllWithConcurrencyLimit buildFilePaths (hashWorker this) None
             (launchedAfterFailure (effects this)) 0 [] tr = ((None, manifestFileInfo), tr1)
        \<and> postDeployManifest (apiClient this) deployId manifestFileInfo tr1 = Inr instructions
        \<and> \<not> manifestRejected instructions \<longrightarrow>
        (\<exists>m. m \<le> length (filesToUploadOf instructions)
           \<and> calls isPostDeployFile (snd (uploadFiles this deployId buildFilePaths tr))
                 = calls isPostDeployFile tr + m
           \<and> calls isRateLimiterWait (snd (uploadFiles this deployId buildFilePaths tr))
                 = calls isRateLimiterWait tr
                   + (if 300 < length (filesToUploadOf instructions) then m else 0)
           \<and> (fst (uploadFiles this deployId buildFilePaths tr) = Inr ()
                \<longrightarrow> m = length (filesToUploadOf instructions)))"
  proof (intro impI, elim conjE)
    assume a: "runAllWithConcurrencyLimit buildFilePaths (hashWorker this) None
             (launchedAfterFailure (effects this)) 0 [] tr = ((None, manifestFileInfo), tr1)"
      "postDeployManifest (apiClient this) deployId manifestFileInfo tr1 = Inr instructions"
      "\<not> manifestRejected instructions"
    show "\<exists>m. m \<le> length (filesToUploadOf instructions)
           \<and> calls isPostDeployFile (snd (uploadFiles this deployId buildFilePaths tr))
                 = calls isPostDeployFile tr + m
           \<and> calls isRateLimiterWait (snd (uploadFiles this deployId buildFilePaths tr))
                 = calls isRateLimiterWait tr
                   + (if 300 < length (filesToUploadOf instructions) then m else 0)
           \<and> (fst (uploadFiles this deployId buildFilePaths tr) = Inr ()
                \<longrightarrow> m = length (filesToUploadOf instructions))"
      using a by (rule uploadFiles_counts)
  qed
qed

theorem rate_limit_above_300_witness:
  "snd (uploadWorker
          (uploadDeployer \<lparr>ins_status = ''ok'', ins_detail = None,
                           ins_files = replicate 301 (uploadInstruction ''index.html'')\<rparr>)
          ''d1'' (replicate 301 ''index.html'') ''index.html'' 0 () []) =
     [RateLimiterWait, PostDeployFile ''d1'' ''dist/index.html'' ''index.html'']
   \<and> snd (uploadWorker
          (uploadDeployer \<lparr>ins_status = ''ok'', ins_detail = None,
                           ins_files = replicate 300 (uploadInstruction ''index.html'')\<rparr>)
          ''d1'' (replicate 300 ''index.html'') ''index.html'' 0 () []) =
     [PostDeployFile ''d1'' ''dist/index.html'' ''index.html'']
   \<and> calls isPostDeployFile
         (snd (uploadFiles
            (uploadDeployer \<lparr>ins_status = ''ok'', ins_detail = None,
                             ins_files = replicate 301 (uploadInstruction ''index.html'')\<rparr>)
            ''d1'' [''index.html'', ''style.css''] [])) = 301
   \<and> calls isRateLimiterWait
         (snd (uploadFiles
            (uploadDeployer \<lparr>ins_status = ''ok'', ins_detail = None,
                             ins_files = replicate 301 (uploadInstruction ''index.html'')\<rparr>)
            ''d1'' [''index.html'', ''style.css''] [])) = 301
   \<and> calls isPostDeployFile
         (snd (uploadFiles
            (uploadDeployer \<lparr>ins_status = ''ok'', ins_detail = None,
                             ins_files = replicate 300 (uploadInstruction ''index.html'')\<rparr>)
            ''d1'' [''index.html'', ''style.css''] [])) = 300
   \<and> calls isRateLimiterWait
         (snd (uploadFiles
            (uploadDeployer \<lparr>ins_status = ''ok'', ins_detail = None,
                             ins_files = replicate 300 (uploadInstruction ''index.html'')\<rparr>)
            ''d1'' [''index.html'', ''style.css''] [])) = 0"
proof -
  let ?ins = "\<lambda>n. \<lparr>ins_status = ''ok'', ins_detail = None,
                    ins_files = replicate n (uploadInstruction ''index.html'')\<rparr>"
  let ?hashed = "[FsStat ''dist/index.html'', ReadFile ''dist/index.html'',
                  FsStat ''dist/style.css'', ReadFile ''dist/style.css'']"
  have n: "filesToUploadOf (?ins n) = replicate n ''index.html''" for n
    by (simp add: filesToUploadOf_def uploadInstruction_def)
  have nr: "\<not> manifestRejected (?ins n)" for n
    by (simp add: manifestRejected_def uploadInstruction_def)
  have ok: "fst (uploadFiles (uploadDeployer (?ins n)) ''d1'' [''index.html'', ''style.css''] [])
              = Inr ()" for n
    using nr by (rule uploadDeployer_succeeds)
  have h: "runAllWithConcurrencyLimit [''index.html'', ''style.css'']
             (hashWorker (uploadDeployer (?ins n))) None
             (launchedAfterFailure (effects (uploadDeployer (?ins n)))) 0 [] []
           = ((None, testManifest), ?hashed)" for n
    by (simp add: hashWorker_def call_def uploadDeployer_def testDeployer_def testEffects_def
          testOptions_def testManifest_def Let_def)
  have a: "postDeployManifest (apiClient (uploadDeployer (?ins n))) ''d1'' testManifest ?hashed
             = Inr (?ins n)" for n
    by (simp add: uploadDeployer_def testDeployer_def testApi_def)
  note t301 = rate_limit_above_300
      [where this = "uploadDeployer (?ins 301)" and deployId = "''d1''"
         and filesToUpload = "replicate 301 ''index.html''" and path = "''index.html''"
         and i = 0 and u = "()" and tr' = "[]"
         and buildFilePaths = "[''index.html'', ''style.css'']" and tr = "[]"
         and manifestFileInfo = testManifest and ?tr1.0 = ?hashed and instructions = "?ins 301"]
  note t300 = rate_limit_above_300
      [where this = "uploadDeployer (?ins 300)" and deployId = "''d1''"
         and filesToUpload = "replicate 300 ''index.html''" and path = "''index.html''"
         and i = 0 and u = "()" and tr' = "[]"
         and buildFilePaths = "[''index.html'', ''style.css'']" and tr = "[]"
         and manifestFileInfo = testManifest and ?tr1.0 = ?hashed and instructions = "?ins 300"]
  have w301: "snd (uploadWorker (uploadDeployer (?ins 301)) ''d1'' (replicate 301 ''index.html'')
                     ''index.html'' 0 () []) =
                [RateLimiterWait, PostDeployFile ''d1'' ''dist/index.html'' ''index.html'']"
    using t301[THEN conjunct1] by (simp add: uploadDeployer_fields)
  have w300: "snd (uploadWorker (uploadDeployer (?ins 300)) ''d1'' (replicate 300 ''index.html'')
                     ''index.html'' 0 () []) =
                [PostDeployFile ''d1'' ''dist/index.html'' ''index.html'']"
    using t300[THEN conjunct1] by (simp add: uploadDeployer_fields)
  from t301[THEN conjunct2, rule_format, OF conjI[OF h conjI[OF a nr]]]
  obtain m where
        "calls isPostDeployFile
           (snd (uploadFiles (uploadDeployer (?ins 301)) ''d1'' [''index.html'', ''style.css''] []))
         = calls isPostDeployFile [] + m"
    and "calls isRateLimiterWait
           (snd (uploadFiles (uploadDeployer (?ins 301)) ''d1'' [''index.html'', ''style.css''] []))
         = calls isRateLimiterWait [] + (if 300 < length (filesToUploadOf (?ins 301)) then m else 0)"
    and "fst (uploadFiles (uploadDeployer (?ins 301)) ''d1'' [''index.html'', ''style.css''] [])
           = Inr () \<longrightarrow> m = length (filesToUploadOf (?ins 301))"
    by (elim exE conjE)
  then have c301:
    "calls isPostDeployFile
       (snd (uploadFiles (uploadDeployer (?ins 301)) ''d1'' [''index.html'', ''style.css''] []))
     = 301
     \<and> calls isRateLimiterWait
       (snd (uploadFiles (uploadDeployer (?ins 301)) ''d1'' [''index.html'', ''style.css''] []))
     = 301"
    using ok[of 301] n[of 301] by simp
  from t300[THEN conjunct2, rule_format, OF conjI[OF h conjI[OF a nr]]]
  obtain k where
        "calls isPostDeployFile
           (snd (uploadFiles (uploadDeployer (?ins 300)) ''d1'' [''index.html'', ''style.css''] []))
         = calls isPostDeployFile [] + k"
    and "calls isRateLimiterWait
           (snd (uploadFiles (uploadDeployer (?ins 300)) ''d1'' [''index.html'', ''style.css''] []))
         = calls isRateLimiterWait [] + (if 300 < length (filesToUploadOf (?ins 300)) then k else 0)"
    and "fst (uploadFiles (uploadDeployer (?ins 300)) ''d1'' [''index.html'', ''style.css''] [])
           = Inr () \<longrightarrow> k = length (filesToUploadOf (?ins 300))"
    by (elim exE conjE)
  then have c300:
    "calls isPostDeployFile
       (snd (uploadFiles (uploadDeployer (?ins 300)) ''d1'' [''index.html'', ''style.css''] []))
     = 300
     \<and> calls isRateLimiterWait
       (snd (uploadFiles (uploadDeployer (?ins 300)) ''d1'' [''index.html'', ''style.css''] []))
     = 0"
    using ok[of 300] n[of 300] by simp
  show ?thesis
    using w301 w300 c301 c300 by simp
qed

subsection \<open>\<^verbatim>\<open>getBuildFilePaths\<close>: the prompt to build again\<close>

lemma statLoop_no_confirm:
  "statLoop eff newer dir files acc tr = (r, tr') \<Longrightarrow> filter isConfirm tr' = filter isConfirm tr"
proof (induction files arbitrary: acc tr)
  case Nil
  then show ?case by simp
next
  case (Cons f fs)
  then show ?case
    by (auto simp add: call_def split: sum.splits)
qed

lemma findBuildFiles_no_confirm:
  "findBuildFiles this tr = (r, tr') \<Longrightarrow> filter isConfirm tr' = filter isConfirm tr"
  by (auto simp add: findBuildFiles_def call_def split: prod.splits option.splits if_splits)

lemma findLeast_no_confirm:
  "findLeastRecentBuildMtimeMs this tr = (r, tr') \<Longrightarrow> filter isConfirm tr' = filter isConfirm tr"
  by (auto simp add: findLeastRecentBuildMtimeMs_def call_def
        split: prod.splits sum.splits option.splits dest!: statLoop_no_confirm)

lemma findMost_no_confirm:
  "findMostRecentSourceMtimeMs this tr = (r, tr') \<Longrightarrow> filter isConfirm tr' = filter isConfirm tr"
  by (auto simp add: findMostRecentSourceMtimeMs_def call_def Let_def
        split: prod.splits sum.splits option.splits if_splits dest!: statLoop_no_confirm)

lemma builtDeployer_fields:
  "isTty (effects (builtDeployer n b s)) = True"
  "opt_force (deployOptions (builtDeployer n b s)) = None"
  "now (effects (builtDeployer n b s)) tr = n"
  by (simp_all add: builtDeployer_def testDeployer_def testEffects_def testOptions_def)

lemma builtDeployer_findBuildFiles:
  "findBuildFiles (builtDeployer n b s) tr = (Inr [''index.html''], tr @ [VisitFiles ''dist''])"
  by (simp add: findBuildFiles_def call_def builtDeployer_def testDeployer_def testEffects_def
        testOptions_def)

lemma builtDeployer_findLeast:
  "findLeastRecentBuildMtimeMs (builtDeployer n b s) tr =
     (Inr (Num b), tr @ [VisitFiles ''dist'', Stat ''dist/index.html''])"
  by (simp add: findLeastRecentBuildMtimeMs_def call_def builtDeployer_def testDeployer_def
        testEffects_def testOptions_def)

lemma builtDeployer_findMost:
  "findMostRecentSourceMtimeMs (builtDeployer n b s) tr =
     (Inr (Num s), tr @ [VisitFiles ''src'', Stat ''src/index.html'',
                         Stat ''src/.observablehq/cache''])"
  by (simp add: findMostRecentSourceMtimeMs_def call_def builtDeployer_def testDeployer_def
        testEffects_def testOptions_def isEnoent_def)

lemma builtDeployer_run:
  "getBuildFilePaths (builtDeployer n b s) [] =
     (Inr [''index.html''],
      [VisitFiles ''dist'', VisitFiles ''dist'', Stat ''dist/index.html'',
       VisitFiles ''src'', Stat ''src/index.html'', Stat ''src/.observablehq/cache'',
       DateNow,
       Confirm (rebuildPrompt (if s > b then True else real_of_int n - b > BUILD_AGE_WARNING_MS))])"
  by (simp add: getBuildFilePaths_def getBuildFilePaths_find_def getBuildFilePaths_stale_def
        builtDeployer_findBuildFiles builtDeployer_findLeast builtDeployer_findMost
        builtDeployer_fields call_def Let_def)
     (simp add: builtDeployer_def testDeployer_def testEffects_def)

text \<open>
  C6, as the code has it. In a terminal, with \<^verbatim>\<open>force\<close> unset and a build present,
  \<^verbatim>\<open>getBuildFilePaths\<close> shows exactly one confirmation, "Would you like to build again before
  deploying?", whatever the modification times are. Its suggested answer is "yes" exactly
  when the most recent source time is strictly newer than the least recent build time, or
  the build is older than \<open>BUILD_AGE_WARNING_MS\<close> (five minutes).
\<close>

theorem rebuild_prompt:
  assumes "isTty (effects this)"
    and "opt_force (deployOptions this) = None"
    and "findBuildFiles this tr = (Inr buildFilePaths, tr1)"
    and "findLeastRecentBuildMtimeMs this tr1 = (Inr least, tr2)"
    and "findMostRecentSourceMtimeMs this tr2 = (Inr most, tr3)"
  shows "filter isConfirm (snd (getBuildFilePaths this tr)) =
     filter isConfirm tr
     @ [Confirm (rebuildPrompt
          (jgt most least
           \<or> jgt (jsub (real_of_int (now (effects this) tr3)) least) (Num BUILD_AGE_WARNING_MS)))]"
proof -
  let ?iv = "jgt most least
           \<or> jgt (jsub (real_of_int (now (effects this) tr3)) least) (Num BUILD_AGE_WARNING_MS)"
  let ?tr4 = "tr3 @ [DateNow, Confirm (rebuildPrompt ?iv)]"
  have c: "filter isConfirm tr3 = filter isConfirm tr"
    using findBuildFiles_no_confirm[OF assms(3)] findLeast_no_confirm[OF assms(4)]
      findMost_no_confirm[OF assms(5)] by simp
  have f: "getBuildFilePaths_find this tr = (Inr (False, Some buildFilePaths), tr1)"
    using assms(2,3) by (simp add: getBuildFilePaths_find_def)
  have st: "getBuildFilePaths_stale this False tr1 =
      (case confirm (effects this) (rebuildPrompt ?iv) (tr3 @ [DateNow]) of
         Canceled \<Rightarrow> (Inl (userCanceled ''User canceled deploy''), ?tr4)
       | Answered choice \<Rightarrow> (Inr choice, ?tr4))"
    using assms by (simp add: getBuildFilePaths_stale_def call_def Let_def split: answer.splits)
  have "filter isConfirm (snd (getBuildFilePaths this tr)) = filter isConfirm ?tr4"
  proof (cases "confirm (effects this) (rebuildPrompt ?iv) (tr3 @ [DateNow])")
    case Canceled
    then show ?thesis
      by (simp add: getBuildFilePaths_def f st)
  next
    case (Answered choice)
    show ?thesis
    proof (cases choice)
      case False
      then show ?thesis
        using Answered by (simp add: getBuildFilePaths_def f st)
    next
      case True
      obtain r tr5 where b: "findBuildFiles this (?tr4 @ [Build]) = (r, tr5)"
        by (metis surj_pair)
      have "filter isConfirm tr5 = filter isConfirm ?tr4"
        using findBuildFiles_no_confirm[OF b] by simp
      then show ?thesis
        using Answered True b
        by (simp add: getBuildFilePaths_def f st call_def split: sum.splits)
    qed
  qed
  then show ?thesis
    using c by simp
qed

theorem rebuild_prompt_witness:
  "filter isConfirm (snd (getBuildFilePaths (builtDeployer 1000000 940000 990000) [])) =
     [Confirm \<lparr>cf_message = ''Would you like to build again before deploying?'',
               cf_initialValue = Some True\<rparr>]"
  using rebuild_prompt
          [of "builtDeployer 1000000 940000 990000" "[]" "[''index.html'']"
              "[VisitFiles ''dist'']" "Num 940000"
              "[VisitFiles ''dist'', VisitFiles ''dist'', Stat ''dist/index.html'']"
              "Num 990000"
              "[VisitFiles ''dist'', VisitFiles ''dist'', Stat ''dist/index.html'',
                VisitFiles ''src'', Stat ''src/index.html'', Stat ''src/.observablehq/cache'']"]
  by (simp add: builtDeployer_fields builtDeployer_findBuildFiles builtDeployer_findLeast
        builtDeployer_findMost rebuildPrompt_def)

text \<open>
  C6 as the spec states it fails twice. With a build that is one minute old and older
  sources the prompt is shown all the same (suggesting "no"); with a build that is ten
  minutes old and older sources the suggested answer is "yes" although no source is newer.
\<close>

theorem rebuild_prompt_always_shown:
  "\<not> jgt (Num 900000) (Num 940000)
   \<and> \<not> jgt (jsub (real_of_int 1000000) (Num 940000)) (Num BUILD_AGE_WARNING_MS)
   \<and> filter isConfirm (snd (getBuildFilePaths (builtDeployer 1000000 940000 900000) [])) =
       [Confirm \<lparr>cf_message = ''Would you like to build again before deploying?'',
                 cf_initialValue = Some False\<rparr>]
   \<and> \<not> jgt (Num 300000) (Num 400000)
   \<and> filter isConfirm (snd (getBuildFilePaths (builtDeployer 1000000 400000 300000) [])) =
       [Confirm \<lparr>cf_message = ''Would you like to build again before deploying?'',
                 cf_initialValue = Some True\<rparr>]"
  by (simp add: builtDeployer_run BUILD_AGE_WARNING_MS_def rebuildPrompt_def)

end
